theory Spec2Isabelle
  imports Main
begin

section \<open>JavaScript values\<close>

text \<open>
  The provider (\<^verbatim>\<open>src/src/index.js\<close>, and its older variant
  \<^verbatim>\<open>src/unnamed/part_000\<close>) handles JSON-like values. \<open>Num\<close> carries the
  integer-valued numbers, printed with all their digits (JavaScript prints a
  number in exponent notation from \<open>1e21\<close> on: the model does not cover the printing
  of such numbers); strings are byte strings, so \<open>toLowerCase\<close> below is the ASCII
  one (it does not cover the upper-case letters outside ASCII). Objects are
  association lists read with \<open>map_of\<close>.
\<close>

datatype jsval =
    Undefined
  | Null
  | Bool bool
  | Num int
  | Str string
  | Arr "jsval list"
  | Obj "(string \<times> jsval) list"

text \<open>Thrown and rejected values. \<open>ProviderRpcError\<close> is the class of
  \<^verbatim>\<open>./error\<close>.

  Modelled from the spec: the file \<^verbatim>\<open>error.js\<close> is absent; the spec describes
  the error as an error object with \<open>code\<close> and \<open>message\<close> that is rejected
  unchanged, so it is an \<open>Error\<close> instance carrying both.\<close>

datatype jserror =
    ProviderRpcError int string
  | Error jsval
  | TypeError string
  | OtherError string

text \<open>JavaScript truthiness (\<open>!x\<close>, \<open>x || y\<close>, \<open>c ? a : b\<close>).\<close>

fun truthy :: "jsval \<Rightarrow> bool" where
  "truthy Undefined = False"
| "truthy Null = False"
| "truthy (Bool b) = b"
| "truthy (Num n) = (n \<noteq> 0)"
| "truthy (Str s) = (s \<noteq> [])"
| "truthy (Arr xs) = True"
| "truthy (Obj fs) = True"

text \<open>\<open>typeof v === "object"\<close>.\<close>

fun typeof_object :: "jsval \<Rightarrow> bool" where
  "typeof_object Null = True"
| "typeof_object (Arr xs) = True"
| "typeof_object (Obj fs) = True"
| "typeof_object v = False"

text \<open>Reading a named property \<open>v.k\<close> of a value that is neither \<open>null\<close> nor
  \<open>undefined\<close> (reading one of those throws; the callers below guard it).\<close>

fun getprop :: "jsval \<Rightarrow> string \<Rightarrow> jsval" where
  "getprop (Obj fs) k = (case map_of fs k of Some v \<Rightarrow> v | None \<Rightarrow> Undefined)"
| "getprop v k = Undefined"

definition digit_char :: "nat \<Rightarrow> char" where
  "digit_char d = ''0123456789abcdef'' ! d"

fun nat_toString :: "nat \<Rightarrow> nat \<Rightarrow> string" where
  "nat_toString b n =
     (if n < b \<or> b < 2 then [digit_char n]
      else nat_toString b (n div b) @ [digit_char (n mod b)])"

text \<open>\<open>n.toString(radix)\<close> for an integer-valued number.\<close>

definition int_toString :: "nat \<Rightarrow> int \<Rightarrow> string" where
  "int_toString b n =
     (if n < 0 then ''-'' @ nat_toString b (nat (- n)) else nat_toString b (nat n))"

fun join_comma :: "string list \<Rightarrow> string" where
  "join_comma [] = []"
| "join_comma [s] = s"
| "join_comma (s # t # ss) = s @ '','' @ join_comma (t # ss)"

text \<open>String conversion (\<open>"" + v\<close>, and \<open>v.toString(16)\<close> for a \<open>v\<close> that is not a
  number): arrays join their elements with commas, \<open>null\<close> and \<open>undefined\<close>
  elements giving the empty string.\<close>

fun js_toString :: "jsval \<Rightarrow> string" where
  "js_toString Undefined = ''undefined''"
| "js_toString Null = ''null''"
| "js_toString (Bool b) = (if b then ''true'' else ''false'')"
| "js_toString (Num n) = int_toString 10 n"
| "js_toString (Str s) = s"
| "js_toString (Arr xs) =
     join_comma (map (\<lambda>x. if x = Undefined \<or> x = Null then [] else js_toString x) xs)"
| "js_toString (Obj fs) = ''[object Object]''"

definition char_toLower :: "char \<Rightarrow> char" where
  "char_toLower c =
     (let n = (of_char c :: nat) in if 65 \<le> n \<and> n \<le> 90 then char_of (n + 32) else c)"

definition toLowerCase :: "string \<Rightarrow> string" where
  "toLowerCase s = map char_toLower s"

section \<open>Utils (src/src/utils.js)\<close>

text \<open>\<open>Utils.intToHex\<close>, lines 34-40.\<close>

definition intToHex :: "jsval \<Rightarrow> jsval" where
  "intToHex v =
     (case v of
        Undefined \<Rightarrow> Undefined
      | Null \<Rightarrow> Null
      | Num n \<Rightarrow> Str (''0x'' @ int_toString 16 n)
      | _ \<Rightarrow> Str (''0x'' @ js_toString v))"

text \<open>\<open>payload.params[k]\<close>: reading an index of an absent \<open>params\<close> throws,
  an index past the end gives \<open>undefined\<close>.\<close>

definition param_at :: "jsval list option \<Rightarrow> nat \<Rightarrow> jserror + jsval" where
  "param_at ps k =
     (case ps of
        None \<Rightarrow> Inl (TypeError ''Cannot read properties of undefined'')
      | Some xs \<Rightarrow> Inr (if k < length xs then xs ! k else Undefined))"

text \<open>\<open>Utils.handleSignParams\<close>, lines 57-69; the result is the \<open>data\<close> field of the
  object it returns. \<open>params[0].toLowerCase()\<close> throws unless \<open>params[0]\<close> is a
  string.\<close>

definition handleSignParams :: "string \<Rightarrow> jsval list option \<Rightarrow> jserror + jsval" where
  "handleSignParams addr ps =
     (case ps of
        None \<Rightarrow> Inr (Str [])
      | Some xs \<Rightarrow>
          if length xs < 2 then Inr (if xs = [] then Undefined else xs ! 0)
          else (case xs ! 0 of
                  Str s \<Rightarrow>
                    if toLowerCase addr = toLowerCase s then Inr (xs ! 1) else Inr (xs ! 0)
                | _ \<Rightarrow> Inl (TypeError ''params[0].toLowerCase is not a function'')))"

section \<open>The environment\<close>

text \<open>
  The libraries the provider imports (\<open>buffer\<close>, \<open>isutf8\<close>, \<open>eth-sig-util\<close>), the
  built-in \<open>JSON.parse\<close> and the page it runs in are not part of the repository: they
  are parameters of the model. A buffer is a byte string.
  \<^item> \<open>Buffer_from v\<close> is \<open>Buffer.from(v)\<close>, which throws on some values;
  \<^item> \<open>Buffer_from_hex s\<close> is \<open>Buffer.from(s, "hex")\<close>;
  \<^item> \<open>Buffer_toString_hex b\<close> is \<open>b.toString("hex")\<close>;
  \<^item> \<open>TypedDataUtils_sign m v4\<close> is \<open>TypedDataUtils.sign(m, v4)\<close>;
  \<^item> \<open>location_origin\<close> is \<open>window.location.origin\<close> and \<open>iconLink\<close> the value
    \<open>Utils.getIconLink()\<close> reads from the document.
\<close>

record extern =
  Buffer_from :: "jsval \<Rightarrow> jserror + string"
  Buffer_from_hex :: "string \<Rightarrow> jserror + string"
  Buffer_toString_hex :: "string \<Rightarrow> string"
  isUtf8 :: "string \<Rightarrow> bool"
  JSON_parse :: "jsval \<Rightarrow> jserror + jsval"
  TypedDataUtils_sign :: "jsval \<Rightarrow> bool \<Rightarrow> jserror + string"
  location_origin :: string
  iconLink :: string

text \<open>\<open>Utils.messageToBuffer\<close>, lines 43-51.\<close>

definition messageToBuffer :: "extern \<Rightarrow> jsval \<Rightarrow> jserror + string" where
  "messageToBuffer ext message =
     (case message of
        Str s \<Rightarrow>
          if take 2 s = ''0x'' then Buffer_from_hex ext (drop 2 s)
          else Buffer_from ext message
      | _ \<Rightarrow> Buffer_from ext message)"

text \<open>\<open>Utils.bufferToHex\<close>, lines 53-55, applied to a buffer (copying a buffer keeps
  its bytes) and applied to a message value.\<close>

definition bufferToHex :: "extern \<Rightarrow> string \<Rightarrow> string" where
  "bufferToHex ext buf = ''0x'' @ Buffer_toString_hex ext buf"

definition bufferToHex_value :: "extern \<Rightarrow> jsval \<Rightarrow> jserror + string" where
  "bufferToHex_value ext v =
     (case Buffer_from ext v of Inl e \<Rightarrow> Inl e | Inr buf \<Rightarrow> Inr (bufferToHex ext buf))"

section \<open>The provider's state\<close>

record config =
  cfg_address :: jsval
  cfg_chainId :: jsval
  cfg_rpcUrl :: jsval
  cfg_isDebug :: jsval
  cfg_isProxyRPC :: jsval

text \<open>A request payload \<open>{id, jsonrpc, method, params}\<close>, the inbound request shape of
  section 6 of the specification: absent fields are \<open>Undefined\<close>, \<open>params\<close> is a
  sequence or absent. A payload whose \<open>params\<close> is anything else (an object, a
  string), or that has other fields, is not covered.\<close>

record payload =
  pid :: jsval
  pjsonrpc :: jsval
  pmethod :: string
  pparams :: "jsval list option"

definition payload_value :: "payload \<Rightarrow> jsval" where
  "payload_value pl =
     Obj [(''id'', pid pl), (''jsonrpc'', pjsonrpc pl), (''method'', Str (pmethod pl)),
          (''params'', case pparams pl of None \<Rightarrow> Undefined | Some xs \<Rightarrow> Arr xs)]"

datatype outcome = Resolved jsval | Rejected jserror

text \<open>A message handed to the host application: \<open>msg_dapp\<close> is the
  \<open>{origin, icon}\<close> context (index.js only).\<close>

record hostmsg =
  msg_dapp :: "(string \<times> string) option"
  msg_name :: string
  msg_payload :: jsval
  msg_id :: jsval

text \<open>
  The fields of a \<open>TrustWeb3Provider\<close>, and what it has done to the outside:
  \<^item> \<open>callbacks\<close> maps an id to the promise its callback settles (the callback of
    \<open>_request\<close> rejects that promise when given an error and resolves it otherwise);
  \<^item> \<open>promises\<close> holds the settled promises (a promise settles once), \<open>nextPromise\<close>
    the next handle;
  \<^item> \<open>posted\<close> are the messages handed to the host, \<open>rpcCalls\<close> the calls made to
    \<open>this.rpc.call\<close> (payload, promise, \<open>wrapResult\<close>), \<open>emitted\<close> the events;
  \<^item> \<open>genIds\<close> is what the successive calls of \<open>Utils.genId()\<close> return (a timestamp
    plus a random offset in the source), \<open>genCalls\<close> how many were made;
  \<^item> \<open>idMapping\<close> and \<open>lastId\<close> are the state of the id correlator
    (\<open>this.idMapping\<close>): its entries, and the greatest id it has minted (0 before
    the first).
\<close>

record provider =
  address :: string
  selectedAddress :: string
  ready :: bool
  chainId :: jsval
  networkVersion :: string
  rpcUrl :: jsval
  isDebug :: bool
  isProxyRPC :: bool
  idMapping :: "jsval \<rightharpoonup> jsval"
  callbacks :: "jsval \<rightharpoonup> nat"
  wrapResults :: "jsval \<rightharpoonup> jsval"
  promises :: "nat \<rightharpoonup> outcome"
  nextPromise :: nat
  posted :: "hostmsg list"
  rpcCalls :: "(payload \<times> nat \<times> jsval) list"
  emitted :: "(string \<times> jsval) list"
  genIds :: "nat \<Rightarrow> int"
  genCalls :: nat
  lastId :: int

text \<open>A page: its provider (\<open>window.ethereum\<close>) and the providers of its frames
  (\<open>window.frames[i].ethereum\<close>; \<open>None\<close> when reading it throws).\<close>

record window =
  ethereum :: provider
  frames :: "provider option list"

definition genId :: "provider \<Rightarrow> int \<times> provider" where
  "genId p = (genIds p (genCalls p), p\<lparr>genCalls := Suc (genCalls p)\<rparr>)"

text \<open>Settling a promise: the first settlement stands.\<close>

definition settle :: "nat \<Rightarrow> outcome \<Rightarrow> provider \<Rightarrow> provider" where
  "settle h out p =
     (case promises p h of
        None \<Rightarrow> p\<lparr>promises := (promises p)(h \<mapsto> out)\<rparr>
      | Some old \<Rightarrow> p)"

section \<open>The id correlator\<close>

text \<open>
  Modelled from the spec: \<^verbatim>\<open>id_mapping.js\<close> (the class \<open>IdMapping\<close> with
  \<open>tryIntifyId\<close> and \<open>tryPopId\<close>) is absent. By section 4.1, \<open>normalize\<close> mints a
  fresh internal id and rewrites the request's id to it, recording the entry
  internal id \<open>\<mapsto>\<close> external id when the request has an external id, and recording
  nothing when it has none (\<open>tryIntifyId\<close> below). By section 3 the internal id is
  a strictly unique integer, generated fresh: \<open>mint\<close> takes the next value of
  \<open>Utils.genId\<close> (the locally generated value of section 6) and raises it above
  every id minted before, so the minted ids increase strictly and are positive.
\<close>

definition mint :: "provider \<Rightarrow> int \<times> provider" where
  "mint p =
     (let (g, p1) = genId p;
          n = max g (lastId p1 + 1)
      in (n, p1\<lparr>lastId := n\<rparr>))"

text \<open>
  Modelled from the spec: \<open>normalize\<close> of section 4.1, as described above.
\<close>

definition tryIntifyId :: "provider \<Rightarrow> payload \<Rightarrow> provider \<times> payload" where
  "tryIntifyId p pl =
     (let (n, p1) = mint p in
      if pid pl = Undefined then (p1, pl\<lparr>pid := Num n\<rparr>)
      else (p1\<lparr>idMapping := (idMapping p1)(Num n \<mapsto> pid pl)\<rparr>, pl\<lparr>pid := Num n\<rparr>))"

text \<open>
  Modelled from the spec: by sections 3 and 4.1 the entry is removed and returned
  when there is one, and "not found" is the answer otherwise, the caller falling
  back to the internal id (the \<open>|| id\<close> of \<open>sendResponse\<close>).
\<close>

definition tryPopId :: "provider \<Rightarrow> jsval \<Rightarrow> jsval \<times> provider" where
  "tryPopId p i =
     (case idMapping p i of
        None \<Rightarrow> (Undefined, p)
      | Some ext_id \<Rightarrow> (ext_id, p\<lparr>idMapping := (idMapping p)(i := None)\<rparr>))"

section \<open>The provider of src/src/index.js\<close>

subsection \<open>Configuration (lines 19-47)\<close>

text \<open>\<open>setAddress\<close>, lines 32-36: \<open>(address || "").toLowerCase()\<close> throws when
  \<open>address\<close> is truthy and not a string, before any field is written.\<close>

definition setAddress :: "provider \<Rightarrow> jsval \<Rightarrow> jserror + provider" where
  "setAddress p a =
     (case (if truthy a then a else Str []) of
        Str s \<Rightarrow>
          Inr (p\<lparr>address := toLowerCase s, selectedAddress := toLowerCase s,
                 ready := truthy a\<rparr>)
      | _ \<Rightarrow> Inl (TypeError ''(address || \"\").toLowerCase is not a function''))"

text \<open>\<open>setConfig\<close>, lines 38-47.\<close>

definition setConfig :: "provider \<Rightarrow> config \<Rightarrow> jserror + provider" where
  "setConfig p c =
     (case setAddress p (cfg_address c) of
        Inl e \<Rightarrow> Inl e
      | Inr p1 \<Rightarrow>
          Inr (p1\<lparr>chainId := intToHex (cfg_chainId c),
                  networkVersion := js_toString (cfg_chainId c),
                  rpcUrl := cfg_rpcUrl c,
                  isDebug := truthy (cfg_isDebug c),
                  isProxyRPC := truthy (cfg_isProxyRPC c)\<rparr>))"

text \<open>\<open>emitConnect\<close>, lines 281-283.\<close>

definition emitConnect :: "provider \<Rightarrow> jsval \<Rightarrow> provider" where
  "emitConnect p c = p\<lparr>emitted := emitted p @ [(''connect'', Obj [(''chainId'', c)])]\<rparr>"

text \<open>An object before its constructor has run; \<open>gen\<close> is the source of ids of the
  page.\<close>

definition blank :: "(nat \<Rightarrow> int) \<Rightarrow> provider" where
  "blank gen =
     \<lparr>address = [], selectedAddress = [], ready = False, chainId = Undefined,
      networkVersion = [], rpcUrl = Undefined, isDebug = False, isProxyRPC = False,
      idMapping = Map.empty, callbacks = Map.empty, wrapResults = Map.empty,
      promises = Map.empty, nextPromise = 0, posted = [], rpcCalls = [], emitted = [],
      genIds = gen, genCalls = 0, lastId = 0\<rparr>"

text \<open>The constructor, lines 19-30.\<close>

definition constructor :: "(nat \<Rightarrow> int) \<Rightarrow> config \<Rightarrow> jserror + provider" where
  "constructor gen c =
     (case setConfig (blank gen) c of
        Inl e \<Rightarrow> Inl e
      | Inr p \<Rightarrow>
          (let p1 = p\<lparr>idMapping := Map.empty, lastId := 0, callbacks := Map.empty,
                       wrapResults := Map.empty,
                       isDebug := truthy (cfg_isDebug c),
                       isProxyRPC := truthy (cfg_isProxyRPC c)\<rparr>
           in Inr (emitConnect p1 (chainId p1))))"

subsection \<open>Local answers (lines 290-304)\<close>

definition eth_accounts :: "provider \<Rightarrow> jsval" where
  "eth_accounts p = (if address p \<noteq> [] then Arr [Str (address p)] else Arr [])"

definition eth_coinbase :: "provider \<Rightarrow> jsval" where
  "eth_coinbase p = Str (address p)"

definition net_version :: "provider \<Rightarrow> jsval" where
  "net_version p = Str (networkVersion p)"

definition eth_chainId :: "provider \<Rightarrow> jsval" where
  "eth_chainId p = chainId p"

subsection \<open>The response sink (lines 418-462)\<close>

text \<open>Lines 423-427 of \<open>sendResponse\<close>: the \<open>result\<close> field of the reply.\<close>

definition unwrapResult :: "jsval \<Rightarrow> jsval" where
  "unwrapResult result =
     (if result \<noteq> Null \<and> result \<noteq> Undefined \<and> typeof_object result
         \<and> truthy (getprop result ''jsonrpc'') \<and> truthy (getprop result ''result'')
      then getprop result ''result'' else result)"

definition reply :: "jsval \<Rightarrow> jsval \<Rightarrow> jsval" where
  "reply originId result =
     Obj [(''jsonrpc'', Str ''2.0''), (''id'', originId), (''result'', unwrapResult result)]"

text \<open>\<open>sendResponse\<close> up to its loop over the frames, on one provider; the second
  component says whether a callback was found.\<close>

definition sendResponse_own :: "provider \<Rightarrow> jsval \<Rightarrow> jsval \<Rightarrow> provider \<times> bool" where
  "sendResponse_own p0 i result =
     (let (popped, p) = tryPopId p0 i;
          originId = (if truthy popped then popped else i);
          callback = callbacks p i;
          wrapResult = (case wrapResults p i of None \<Rightarrow> Undefined | Some b \<Rightarrow> b);
          data = reply originId result
      in case callback of
           Some h \<Rightarrow>
             ((settle h (Resolved (if truthy wrapResult then data else result)) p)
                \<lparr>callbacks := (callbacks p)(i := None)\<rparr>, True)
         | None \<Rightarrow> (p, False))"

text \<open>The loop of lines 439-448 on one frame: a frame whose provider cannot be read
  throws inside the \<open>try\<close>; a frame whose provider has the id runs its own
  \<open>sendResponse\<close>, which finds the callback.\<close>

definition sendResponse_frame :: "jsval \<Rightarrow> jsval \<Rightarrow> provider option \<Rightarrow> provider option" where
  "sendResponse_frame i result f =
     (case f of
        None \<Rightarrow> None
      | Some fp \<Rightarrow>
          if callbacks fp i \<noteq> None then Some (fst (sendResponse_own fp i result))
          else Some fp)"

definition sendResponse :: "window \<Rightarrow> jsval \<Rightarrow> jsval \<Rightarrow> window" where
  "sendResponse w i result =
     (let (p, found) = sendResponse_own (ethereum w) i result in
      if found then w\<lparr>ethereum := p\<rparr>
      else w\<lparr>ethereum := p, frames := map (sendResponse_frame i result) (frames w)\<rparr>)"

text \<open>\<open>sendError\<close>, lines 455-462; the error is an \<open>Error\<close> instance (\<open>Inl\<close>) or
  another value, which is wrapped.\<close>

definition sendError :: "provider \<Rightarrow> jsval \<Rightarrow> jserror + jsval \<Rightarrow> provider" where
  "sendError p i err =
     (case callbacks p i of
        Some h \<Rightarrow>
          (settle h (Rejected (case err of Inl e \<Rightarrow> e | Inr v \<Rightarrow> Error v)) p)
            \<lparr>callbacks := (callbacks p)(i := None)\<rparr>
      | None \<Rightarrow> p)"

subsection \<open>The host bridge (lines 387-413)\<close>

definition allow_list :: "string list" where
  "allow_list = [''requestAccounts'', ''addEthereumChain'', ''switchEthereumChain'',
                 ''getPermissions'', ''requestPermissions'']"

definition postMessage :: "extern \<Rightarrow> provider \<Rightarrow> string \<Rightarrow> jsval \<Rightarrow> jsval \<Rightarrow> provider" where
  "postMessage ext p handler i data =
     (if ready p \<or> handler = ''requestAccounts'' \<or> handler = ''addEthereumChain''
         \<or> handler = ''switchEthereumChain'' \<or> handler = ''getPermissions''
         \<or> handler = ''requestPermissions''
      then p\<lparr>posted := posted p @
               [\<lparr>msg_dapp = Some (location_origin ext, iconLink ext), msg_name = handler,
                 msg_payload = data, msg_id = Str (js_toString i)\<rparr>]\<rparr>
      else sendError p i (Inl (ProviderRpcError 4100 ''provider is not ready'')))"

subsection \<open>The handlers (lines 306-383)\<close>

text \<open>A handler returns the provider it leaves, or the error it throws; every
  handler throws before it changes anything.\<close>

definition wallet_rpcCall :: "extern \<Rightarrow> provider \<Rightarrow> payload \<Rightarrow> jserror + provider" where
  "wallet_rpcCall ext p pl = Inr (postMessage ext p ''rpcCall'' (pid pl) (payload_value pl))"

definition eth_sign :: "extern \<Rightarrow> provider \<Rightarrow> payload \<Rightarrow> jserror + provider" where
  "eth_sign ext p pl =
     (case handleSignParams (address p) (pparams pl) of
        Inl e \<Rightarrow> Inl e
      | Inr message \<Rightarrow>
          (case messageToBuffer ext message of
             Inl e \<Rightarrow> Inl e
           | Inr buffer \<Rightarrow>
               (let hex = bufferToHex ext buffer in
                if isUtf8 ext buffer
                then Inr (postMessage ext p ''signPersonalMessage'' (pid pl)
                            (Obj [(''data'', Str hex)]))
                else Inr (postMessage ext p ''signMessage'' (pid pl)
                            (Obj [(''data'', Str hex)])))))"

definition personal_sign :: "extern \<Rightarrow> provider \<Rightarrow> payload \<Rightarrow> jserror + provider" where
  "personal_sign ext p pl =
     (case handleSignParams (address p) (pparams pl) of
        Inl e \<Rightarrow> Inl e
      | Inr message \<Rightarrow>
          (case messageToBuffer ext message of
             Inl e \<Rightarrow> Inl e
           | Inr buffer \<Rightarrow>
               if length buffer = 0
               then (case bufferToHex_value ext message of
                       Inl e \<Rightarrow> Inl e
                     | Inr hex \<Rightarrow>
                         Inr (postMessage ext p ''signPersonalMessage'' (pid pl)
                                (Obj [(''data'', Str hex)])))
               else Inr (postMessage ext p ''signPersonalMessage'' (pid pl)
                           (Obj [(''data'', message)]))))"

definition personal_ecRecover :: "extern \<Rightarrow> provider \<Rightarrow> payload \<Rightarrow> jserror + provider" where
  "personal_ecRecover ext p pl =
     (case param_at (pparams pl) 1 of
        Inl e \<Rightarrow> Inl e
      | Inr signature \<Rightarrow>
          (case param_at (pparams pl) 0 of
             Inl e \<Rightarrow> Inl e
           | Inr message \<Rightarrow>
               Inr (postMessage ext p ''ecRecover'' (pid pl)
                      (Obj [(''signature'', signature), (''message'', message)]))))"

definition eth_signTypedData :: "extern \<Rightarrow> provider \<Rightarrow> payload \<Rightarrow> bool \<Rightarrow> jserror + provider" where
  "eth_signTypedData ext p pl useV4 =
     (case param_at (pparams pl) 1 of
        Inl e \<Rightarrow> Inl e
      | Inr raw \<Rightarrow>
          (case JSON_parse ext raw of
             Inl e \<Rightarrow> Inl e
           | Inr message \<Rightarrow>
               (case TypedDataUtils_sign ext message useV4 of
                  Inl e \<Rightarrow> Inl e
                | Inr hash \<Rightarrow>
                    Inr (postMessage ext p ''signTypedMessage'' (pid pl)
                           (Obj [(''data'', Str (''0x'' @ Buffer_toString_hex ext hash)),
                                 (''raw'', raw), (''method'', Str (pmethod pl))])))))"

definition eth_sendTransaction :: "extern \<Rightarrow> provider \<Rightarrow> payload \<Rightarrow> jserror + provider" where
  "eth_sendTransaction ext p pl =
     (case param_at (pparams pl) 0 of
        Inl e \<Rightarrow> Inl e
      | Inr tx \<Rightarrow> Inr (postMessage ext p ''signTransaction'' (pid pl) tx))"

definition eth_requestAccounts :: "extern \<Rightarrow> provider \<Rightarrow> payload \<Rightarrow> jserror + provider" where
  "eth_requestAccounts ext p pl = Inr (postMessage ext p ''requestAccounts'' (pid pl) (Obj []))"

text \<open>\<open>wallet_watchAsset\<close>, lines 358-367, reads \<open>payload.params.options\<close>: absent
  \<open>params\<close> throw there, and on a sequence the property is \<open>undefined\<close>, so reading
  \<open>options.address\<close> throws. The handler posts \<open>watchAsset\<close> only for a payload whose
  \<open>params\<close> is an object with a field \<open>options\<close>, which is no payload of the type
  above: on every payload of this model it throws.\<close>

definition wallet_watchAsset :: "extern \<Rightarrow> provider \<Rightarrow> payload \<Rightarrow> jserror + provider" where
  "wallet_watchAsset ext p pl =
     (case pparams pl of
        None \<Rightarrow> Inl (TypeError ''Cannot read properties of undefined (reading options)'')
      | Some xs \<Rightarrow> Inl (TypeError ''Cannot read properties of undefined (reading address)''))"

definition wallet_addEthereumChain :: "extern \<Rightarrow> provider \<Rightarrow> payload \<Rightarrow> jserror + provider" where
  "wallet_addEthereumChain ext p pl =
     (case param_at (pparams pl) 0 of
        Inl e \<Rightarrow> Inl e
      | Inr chain \<Rightarrow> Inr (postMessage ext p ''addEthereumChain'' (pid pl) chain))"

definition wallet_switchEthereumChain :: "extern \<Rightarrow> provider \<Rightarrow> payload \<Rightarrow> jserror + provider" where
  "wallet_switchEthereumChain ext p pl =
     (case param_at (pparams pl) 0 of
        Inl e \<Rightarrow> Inl e
      | Inr chain \<Rightarrow> Inr (postMessage ext p ''switchEthereumChain'' (pid pl) chain))"

definition wallet_getPermissions :: "extern \<Rightarrow> provider \<Rightarrow> payload \<Rightarrow> jserror + provider" where
  "wallet_getPermissions ext p pl = Inr (postMessage ext p ''getPermissions'' (pid pl) (Obj []))"

definition wallet_requestPermissions :: "extern \<Rightarrow> provider \<Rightarrow> payload \<Rightarrow> jserror + provider" where
  "wallet_requestPermissions ext p pl =
     Inr (postMessage ext p ''requestPermissions'' (pid pl)
            (case pparams pl of None \<Rightarrow> Undefined | Some xs \<Rightarrow> Arr xs))"

subsection \<open>The dispatcher: \<open>_request\<close>, lines 191-279\<close>

definition unsupported :: "string list" where
  "unsupported = [''eth_newFilter'', ''eth_newBlockFilter'',
                  ''eth_newPendingTransactionFilter'', ''eth_uninstallFilter'',
                  ''eth_subscribe'']"

text \<open>The outcome of a handler inside the promise's executor: the window it leaves
  and the error it threw, if any.\<close>

definition handled :: "window \<Rightarrow> jserror + provider \<Rightarrow> window \<times> jserror option" where
  "handled w r = (case r of Inl e \<Rightarrow> (w, Some e) | Inr p \<Rightarrow> (w\<lparr>ethereum := p\<rparr>, None))"

text \<open>The \<open>switch\<close> of lines 212-277; \<open>h\<close> is the promise whose \<open>resolve\<close> and
  \<open>reject\<close> the upstream call keeps.\<close>

definition dispatch ::
  "extern \<Rightarrow> window \<Rightarrow> payload \<Rightarrow> jsval \<Rightarrow> nat \<Rightarrow> window \<times> jserror option" where
  "dispatch ext w pl wrapResult h =
     (let p = ethereum w; m = pmethod pl in
      if m = ''eth_accounts'' then (sendResponse w (pid pl) (eth_accounts p), None)
      else if m = ''eth_coinbase'' then (sendResponse w (pid pl) (eth_coinbase p), None)
      else if m = ''net_version'' then (sendResponse w (pid pl) (net_version p), None)
      else if m = ''eth_chainId'' then (sendResponse w (pid pl) (eth_chainId p), None)
      else if m = ''eth_sign'' then handled w (eth_sign ext p pl)
      else if m = ''personal_sign'' then handled w (personal_sign ext p pl)
      else if m = ''personal_ecRecover'' then handled w (personal_ecRecover ext p pl)
      else if m = ''eth_signTypedData_v3'' then handled w (eth_signTypedData ext p pl False)
      else if m = ''eth_signTypedData'' \<or> m = ''eth_signTypedData_v4''
        then handled w (eth_signTypedData ext p pl True)
      else if m = ''eth_sendTransaction'' then handled w (eth_sendTransaction ext p pl)
      else if m = ''eth_requestAccounts'' then handled w (eth_requestAccounts ext p pl)
      else if m = ''wallet_watchAsset'' then handled w (wallet_watchAsset ext p pl)
      else if m = ''wallet_addEthereumChain''
        then handled w (wallet_addEthereumChain ext p pl)
      else if m = ''wallet_switchEthereumChain''
        then handled w (wallet_switchEthereumChain ext p pl)
      else if m = ''wallet_getPermissions'' then handled w (wallet_getPermissions ext p pl)
      else if m = ''wallet_requestPermissions''
        then handled w (wallet_requestPermissions ext p pl)
      else if m = ''eth_newFilter'' \<or> m = ''eth_newBlockFilter''
              \<or> m = ''eth_newPendingTransactionFilter'' \<or> m = ''eth_uninstallFilter''
              \<or> m = ''eth_subscribe''
        then (w, Some (ProviderRpcError 4200
                (''MathWallet does not support calling '' @ m
                   @ ''. Please use your own solution'')))
      else if isProxyRPC p then handled w (wallet_rpcCall ext p pl)
      else (w\<lparr>ethereum := p\<lparr>callbacks := (callbacks p)((pid pl) := None),
                              wrapResults := (wrapResults p)((pid pl) := None),
                              rpcCalls := rpcCalls p @ [(pl, h, wrapResult)]\<rparr>\<rparr>, None))"

text \<open>Lines 196-210: the new promise \<open>h\<close> (a new promise is pending, so its
  handle holds no outcome), the defaults of \<open>id\<close> and \<open>jsonrpc\<close>, and the two
  registry entries.\<close>

definition register :: "provider \<Rightarrow> payload \<Rightarrow> jsval \<Rightarrow> provider \<times> payload \<times> nat" where
  "register p0 pl0 wrapResult =
     (let h = nextPromise p0;
          p1 = p0\<lparr>promises := (promises p0)(h := None), nextPromise := Suc h\<rparr>;
          (p2, pl1) = (if \<not> truthy (pid pl0)
                       then (let (n, q) = genId p1 in (q, pl0\<lparr>pid := Num n\<rparr>))
                       else (p1, pl0));
          pl2 = (if \<not> truthy (pjsonrpc pl1) then pl1\<lparr>pjsonrpc := Str ''2.0''\<rparr> else pl1)
      in (p2\<lparr>callbacks := (callbacks p2)(pid pl2 \<mapsto> h),
              wrapResults := (wrapResults p2)(pid pl2 \<mapsto> wrapResult)\<rparr>, pl2, h))"

text \<open>A parameter with the default value \<open>true\<close>: the default stands in for an
  argument that is \<open>undefined\<close>.\<close>

definition default_true :: "jsval \<Rightarrow> jsval" where
  "default_true arg = (if arg = Undefined then Bool True else arg)"

text \<open>\<open>_request(payload, wrapResult = true)\<close>: the window it leaves and the promise
  it returns. An error thrown in the executor rejects the promise. The second
  argument is \<open>Undefined\<close> when the caller gives none.\<close>

definition request_internal :: "extern \<Rightarrow> window \<Rightarrow> payload \<Rightarrow> jsval \<Rightarrow> window \<times> nat" where
  "request_internal ext w pl0 arg =
     (let wrapResult = default_true arg;
          (p1, pl1) = tryIntifyId (ethereum w) pl0;
          (p2, pl2, h) = register p1 pl1 wrapResult;
          (w3, thrown) = dispatch ext (w\<lparr>ethereum := p2\<rparr>) pl2 wrapResult h
      in case thrown of
           None \<Rightarrow> (w3, h)
         | Some e \<Rightarrow> (w3\<lparr>ethereum := settle h (Rejected e) (ethereum w3)\<rparr>, h))"

text \<open>The continuation of the upstream call, lines 270-276: \<open>r\<close> is how
  \<open>this.rpc.call(payload)\<close> settled. Reading \<open>response.result\<close> of \<open>null\<close> or
  \<open>undefined\<close> throws, which \<open>.catch(reject)\<close> turns into a rejection.\<close>

definition rpc_settled :: "window \<Rightarrow> nat \<Rightarrow> jsval \<Rightarrow> jserror + jsval \<Rightarrow> window" where
  "rpc_settled w h wrapResult r =
     w\<lparr>ethereum :=
         (case r of
            Inl e \<Rightarrow> settle h (Rejected e) (ethereum w)
          | Inr response \<Rightarrow>
              if truthy wrapResult then settle h (Resolved response) (ethereum w)
              else if response = Undefined \<or> response = Null
              then settle h (Rejected (TypeError ''Cannot read properties (reading result)''))
                     (ethereum w)
              else settle h (Resolved (getprop response ''result'')) (ethereum w))\<rparr>"

subsection \<open>The public entry points (lines 49-186)\<close>

definition request :: "extern \<Rightarrow> window \<Rightarrow> payload \<Rightarrow> window \<times> nat" where
  "request ext w pl = request_internal ext w pl (Bool False)"

text \<open>\<open>payload.map(that._request.bind(that))\<close>, line 177: \<open>map\<close> calls its function
  with the element and its index, so the index is the second argument of
  \<open>_request\<close>.\<close>

fun request_each :: "extern \<Rightarrow> window \<Rightarrow> payload list \<Rightarrow> nat \<Rightarrow> window \<times> nat list" where
  "request_each ext w [] k = (w, [])"
| "request_each ext w (pl # pls) k =
     (let (w1, h) = request_internal ext w pl (Num (int k));
          (w2, hs) = request_each ext w1 pls (Suc k)
      in (w2, h # hs))"

datatype batch = Single payload | Batch "payload list"

text \<open>\<open>sendAsync\<close>, lines 165-186: the window it leaves and the promises whose
  values reach the callback.\<close>

definition sendAsync :: "extern \<Rightarrow> window \<Rightarrow> batch \<Rightarrow> window \<times> nat list" where
  "sendAsync ext w b =
     (case b of
        Batch pls \<Rightarrow> request_each ext w pls 0
      | Single pl \<Rightarrow> (let (w1, h) = request_internal ext w pl Undefined in (w1, [h])))"

datatype send_arg = NoArgument | Callback | Params "jsval list"

definition not_synchronously :: "string \<Rightarrow> string" where
  "not_synchronously m =
     ''MathWallet does not support calling '' @ m
       @ '' synchronously without a callback. Please provide a callback parameter to call ''
       @ m @ '' asynchronously.''"

text \<open>\<open>send\<close>, lines 118-160.\<close>

definition send ::
  "extern \<Rightarrow> window \<Rightarrow> string + payload \<Rightarrow> send_arg \<Rightarrow> jserror + window \<times> nat" where
  "send ext w payloadOrMethod callbackOrParams =
     (let hasCallback = (callbackOrParams = Callback) in
      case payloadOrMethod of
        Inr pl \<Rightarrow>
          (let (i, p) = (if truthy (pid pl) then (pid pl, ethereum w)
                         else (let (n, q) = genId (ethereum w) in (Num n, q)));
               response = \<lparr>pid = i, pjsonrpc = Str ''2.0'', pmethod = pmethod pl,
                           pparams = Some (case pparams pl of None \<Rightarrow> [] | Some xs \<Rightarrow> xs)\<rparr>
           in if hasCallback
              then Inr (request_internal ext (w\<lparr>ethereum := p\<rparr>) response Undefined)
              else Inl (Error (Str (not_synchronously (pmethod pl)))))
      | Inl m \<Rightarrow>
          (let (n, p) = genId (ethereum w);
               response = \<lparr>pid = Num n, pjsonrpc = Str ''2.0'', pmethod = m,
                           pparams = Some (case callbackOrParams of Params xs \<Rightarrow> xs | _ \<Rightarrow> [])\<rparr>
           in if \<not> hasCallback
              then Inr (request_internal ext (w\<lparr>ethereum := p\<rparr>) response Undefined)
              else Inl (Error (Str (not_synchronously m)))))"

section \<open>The provider of src/unnamed/part_000\<close>

text \<open>The older variant of the class. What differs from index.js is modelled
  again, under the same name with the suffix \<open>_part0\<close>; \<open>request\<close>, \<open>sendAsync\<close>,
  \<open>sendError\<close> and the local answers are the same text in both files.\<close>

text \<open>\<open>setAddress\<close>, lines 33-36.\<close>

definition setAddress_part0 :: "provider \<Rightarrow> jsval \<Rightarrow> jserror + provider" where
  "setAddress_part0 p a =
     (case (if truthy a then a else Str []) of
        Str s \<Rightarrow> Inr (p\<lparr>address := toLowerCase s, ready := truthy a\<rparr>)
      | _ \<Rightarrow> Inl (TypeError ''(address || \"\").toLowerCase is not a function''))"

text \<open>\<open>setConfig\<close>, lines 38-46.\<close>

definition setConfig_part0 :: "provider \<Rightarrow> config \<Rightarrow> jserror + provider" where
  "setConfig_part0 p c =
     (case setAddress_part0 p (cfg_address c) of
        Inl e \<Rightarrow> Inl e
      | Inr p1 \<Rightarrow>
          Inr (p1\<lparr>chainId := intToHex (cfg_chainId c),
                  networkVersion := js_toString (cfg_chainId c),
                  rpcUrl := cfg_rpcUrl c,
                  isDebug := truthy (cfg_isDebug c)\<rparr>))"

text \<open>The constructor, lines 18-31 (it emits the configuration's chain id as it
  is).\<close>

definition constructor_part0 :: "(nat \<Rightarrow> int) \<Rightarrow> config \<Rightarrow> jserror + provider" where
  "constructor_part0 gen c =
     (case setConfig_part0 (blank gen) c of
        Inl e \<Rightarrow> Inl e
      | Inr p \<Rightarrow>
          (let p1 = p\<lparr>idMapping := Map.empty, lastId := 0, callbacks := Map.empty,
                       wrapResults := Map.empty, isDebug := truthy (cfg_isDebug c)\<rparr>
           in Inr (emitConnect p1 (cfg_chainId c))))"

text \<open>\<open>send\<close>, lines 77-99: synchronous, it answers the local methods with an
  envelope carrying the payload's id as it is, throws for every other method, and
  touches no field.\<close>

definition send_part0 :: "provider \<Rightarrow> payload \<Rightarrow> jserror + jsval" where
  "send_part0 p pl =
     (let m = pmethod pl;
          response = (\<lambda>result. Obj [(''jsonrpc'', Str ''2.0''), (''id'', pid pl),
                                     (''result'', result)])
      in if m = ''eth_accounts'' then Inr (response (eth_accounts p))
         else if m = ''eth_coinbase'' then Inr (response (eth_coinbase p))
         else if m = ''net_version'' then Inr (response (net_version p))
         else if m = ''eth_chainId'' then Inr (response (eth_chainId p))
         else Inl (ProviderRpcError 4200
                (''Trust does not support calling '' @ m
                   @ '' synchronously without a callback. Please provide a callback parameter to call ''
                   @ m @ '' asynchronously.'')))"

text \<open>\<open>sendResponse\<close>, lines 304-338, up to its loop over the frames. Line 309 reads
  \<open>result.jsonrpc\<close> whenever \<open>typeof result === "object"\<close>, which \<open>null\<close> satisfies:
  the read throws, after the correlator entry was popped.\<close>

definition sendResponse_own_part0 ::
  "provider \<Rightarrow> jsval \<Rightarrow> jsval \<Rightarrow> provider \<times> (jserror + bool)" where
  "sendResponse_own_part0 p0 i result =
     (let (popped, p) = tryPopId p0 i;
          originId = (if truthy popped then popped else i);
          callback = callbacks p i;
          wrapResult = (case wrapResults p i of None \<Rightarrow> Undefined | Some b \<Rightarrow> b)
      in if result = Null
         then (p, Inl (TypeError ''Cannot read properties of null (reading jsonrpc)''))
         else
           (let data = Obj [(''jsonrpc'', Str ''2.0''), (''id'', originId),
                            (''result'',
                               if typeof_object result \<and> truthy (getprop result ''jsonrpc'')
                                  \<and> truthy (getprop result ''result'')
                               then getprop result ''result'' else result)]
            in case callback of
                 Some h \<Rightarrow>
                   ((settle h (Resolved (if truthy wrapResult then data else result)) p)
                      \<lparr>callbacks := (callbacks p)(i := None)\<rparr>, Inr True)
               | None \<Rightarrow> (p, Inr False)))"

definition sendResponse_frame_part0 ::
  "jsval \<Rightarrow> jsval \<Rightarrow> provider option \<Rightarrow> provider option" where
  "sendResponse_frame_part0 i result f =
     (case f of
        None \<Rightarrow> None
      | Some fp \<Rightarrow>
          if callbacks fp i \<noteq> None then Some (fst (sendResponse_own_part0 fp i result))
          else Some fp)"

definition sendResponse_part0 :: "window \<Rightarrow> jsval \<Rightarrow> jsval \<Rightarrow> window \<times> jserror option" where
  "sendResponse_part0 w i result =
     (case sendResponse_own_part0 (ethereum w) i result of
        (p, Inl e) \<Rightarrow> (w\<lparr>ethereum := p\<rparr>, Some e)
      | (p, Inr found) \<Rightarrow>
          if found then (w\<lparr>ethereum := p\<rparr>, None)
          else (w\<lparr>ethereum := p,
                  frames := map (sendResponse_frame_part0 i result) (frames w)\<rparr>, None))"

text \<open>\<open>postMessage\<close>, lines 281-299; the message is the JSON text of
  \<open>{name, payload, id}\<close>, kept here as its three fields.\<close>

definition postMessage_part0 :: "provider \<Rightarrow> string \<Rightarrow> jsval \<Rightarrow> jsval \<Rightarrow> provider" where
  "postMessage_part0 p handler i data =
     (if ready p \<or> handler = ''requestAccounts'' \<or> handler = ''addEthereumChain''
      then p\<lparr>posted := posted p @
               [\<lparr>msg_dapp = None, msg_name = handler, msg_payload = data, msg_id = i\<rparr>]\<rparr>
      else sendError p i (Inl (ProviderRpcError 4100 ''provider is not ready'')))"

text \<open>The handlers, lines 221-276.\<close>

definition eth_sign_part0 :: "extern \<Rightarrow> provider \<Rightarrow> payload \<Rightarrow> jserror + provider" where
  "eth_sign_part0 ext p pl =
     (case param_at (pparams pl) 1 of
        Inl e \<Rightarrow> Inl e
      | Inr message \<Rightarrow>
          (case messageToBuffer ext message of
             Inl e \<Rightarrow> Inl e
           | Inr buffer \<Rightarrow>
               (let hex = bufferToHex ext buffer in
                if isUtf8 ext buffer
                then Inr (postMessage_part0 p ''signPersonalMessage'' (pid pl)
                            (Obj [(''data'', Str hex)]))
                else Inr (postMessage_part0 p ''signMessage'' (pid pl)
                            (Obj [(''data'', Str hex)])))))"

definition personal_sign_part0 :: "extern \<Rightarrow> provider \<Rightarrow> payload \<Rightarrow> jserror + provider" where
  "personal_sign_part0 ext p pl =
     (case param_at (pparams pl) 0 of
        Inl e \<Rightarrow> Inl e
      | Inr message \<Rightarrow>
          (case messageToBuffer ext message of
             Inl e \<Rightarrow> Inl e
           | Inr buffer \<Rightarrow>
               if length buffer = 0
               then (case bufferToHex_value ext message of
                       Inl e \<Rightarrow> Inl e
                     | Inr hex \<Rightarrow>
                         Inr (postMessage_part0 p ''signPersonalMessage'' (pid pl)
                                (Obj [(''data'', Str hex)])))
               else Inr (postMessage_part0 p ''signPersonalMessage'' (pid pl)
                           (Obj [(''data'', message)]))))"

definition personal_ecRecover_part0 :: "provider \<Rightarrow> payload \<Rightarrow> jserror + provider" where
  "personal_ecRecover_part0 p pl =
     (case param_at (pparams pl) 1 of
        Inl e \<Rightarrow> Inl e
      | Inr signature \<Rightarrow>
          (case param_at (pparams pl) 0 of
             Inl e \<Rightarrow> Inl e
           | Inr message \<Rightarrow>
               Inr (postMessage_part0 p ''ecRecover'' (pid pl)
                      (Obj [(''signature'', signature), (''message'', message)]))))"

definition eth_signTypedData_part0 :: "provider \<Rightarrow> payload \<Rightarrow> jserror + provider" where
  "eth_signTypedData_part0 p pl =
     (case param_at (pparams pl) 1 of
        Inl e \<Rightarrow> Inl e
      | Inr raw \<Rightarrow>
          Inr (postMessage_part0 p ''signTypedMessage'' (pid pl) (Obj [(''data'', raw)])))"

definition eth_sendTransaction_part0 :: "provider \<Rightarrow> payload \<Rightarrow> jserror + provider" where
  "eth_sendTransaction_part0 p pl =
     (case param_at (pparams pl) 0 of
        Inl e \<Rightarrow> Inl e
      | Inr tx \<Rightarrow> Inr (postMessage_part0 p ''signTransaction'' (pid pl) tx))"

definition eth_requestAccounts_part0 :: "provider \<Rightarrow> payload \<Rightarrow> jserror + provider" where
  "eth_requestAccounts_part0 p pl =
     Inr (postMessage_part0 p ''requestAccounts'' (pid pl) (Obj []))"

text \<open>\<open>wallet_watchAsset\<close>, lines 264-272: as in index.js, it throws on every payload
  of this model.\<close>

definition wallet_watchAsset_part0 :: "provider \<Rightarrow> payload \<Rightarrow> jserror + provider" where
  "wallet_watchAsset_part0 p pl =
     (case pparams pl of
        None \<Rightarrow> Inl (TypeError ''Cannot read properties of undefined (reading options)'')
      | Some xs \<Rightarrow> Inl (TypeError ''Cannot read properties of undefined (reading address)''))"

definition wallet_addEthereumChain_part0 :: "provider \<Rightarrow> payload \<Rightarrow> jserror + provider" where
  "wallet_addEthereumChain_part0 p pl =
     (case param_at (pparams pl) 0 of
        Inl e \<Rightarrow> Inl e
      | Inr chain \<Rightarrow> Inr (postMessage_part0 p ''addEthereumChain'' (pid pl) chain))"

text \<open>The action names of the \<open>postMessage\<close> calls of part_000.\<close>

definition actions_part0 :: "string list" where
  "actions_part0 = [''signPersonalMessage'', ''signMessage'', ''ecRecover'',
                    ''signTypedMessage'', ''signTransaction'', ''requestAccounts'',
                    ''watchAsset'', ''addEthereumChain'']"

text \<open>The \<open>switch\<close> of lines 149-197.\<close>

definition dispatch_part0 ::
  "extern \<Rightarrow> window \<Rightarrow> payload \<Rightarrow> jsval \<Rightarrow> nat \<Rightarrow> window \<times> jserror option" where
  "dispatch_part0 ext w pl wrapResult h =
     (let p = ethereum w; m = pmethod pl in
      if m = ''eth_accounts'' then sendResponse_part0 w (pid pl) (eth_accounts p)
      else if m = ''eth_coinbase'' then sendResponse_part0 w (pid pl) (eth_coinbase p)
      else if m = ''net_version'' then sendResponse_part0 w (pid pl) (net_version p)
      else if m = ''eth_chainId'' then sendResponse_part0 w (pid pl) (eth_chainId p)
      else if m = ''eth_sign'' then handled w (eth_sign_part0 ext p pl)
      else if m = ''personal_sign'' then handled w (personal_sign_part0 ext p pl)
      else if m = ''personal_ecRecover'' then handled w (personal_ecRecover_part0 p pl)
      else if m = ''eth_signTypedData'' \<or> m = ''eth_signTypedData_v3''
        then handled w (eth_signTypedData_part0 p pl)
      else if m = ''eth_sendTransaction'' then handled w (eth_sendTransaction_part0 p pl)
      else if m = ''eth_requestAccounts'' then handled w (eth_requestAccounts_part0 p pl)
      else if m = ''wallet_watchAsset'' then handled w (wallet_watchAsset_part0 p pl)
      else if m = ''wallet_addEthereumChain''
        then handled w (wallet_addEthereumChain_part0 p pl)
      else if m = ''eth_newFilter'' \<or> m = ''eth_newBlockFilter''
              \<or> m = ''eth_newPendingTransactionFilter'' \<or> m = ''eth_uninstallFilter''
              \<or> m = ''eth_subscribe''
        then (w, Some (ProviderRpcError 4200
                (''Trust does not support calling '' @ m
                   @ ''. Please use your own solution'')))
      else (w\<lparr>ethereum := p\<lparr>callbacks := (callbacks p)((pid pl) := None),
                              wrapResults := (wrapResults p)((pid pl) := None),
                              rpcCalls := rpcCalls p @ [(pl, h, wrapResult)]\<rparr>\<rparr>, None))"

text \<open>\<open>_request\<close>, lines 128-199.\<close>

definition request_internal_part0 ::
  "extern \<Rightarrow> window \<Rightarrow> payload \<Rightarrow> jsval \<Rightarrow> window \<times> nat" where
  "request_internal_part0 ext w pl0 arg =
     (let wrapResult = default_true arg;
          (p1, pl1) = tryIntifyId (ethereum w) pl0;
          (p2, pl2, h) = register p1 pl1 wrapResult;
          (w3, thrown) = dispatch_part0 ext (w\<lparr>ethereum := p2\<rparr>) pl2 wrapResult h
      in case thrown of
           None \<Rightarrow> (w3, h)
         | Some e \<Rightarrow> (w3\<lparr>ethereum := settle h (Rejected e) (ethereum w3)\<rparr>, h))"

section \<open>An example environment\<close>

text \<open>A concrete environment, on which the model runs on concrete inputs: hex
  encoding and decoding of byte strings, the UTF-8 well-formedness test of RFC 3629,
  and a source of ids that counts up from 1000.\<close>

definition hex_value :: "char \<Rightarrow> nat option" where
  "hex_value c =
     (let n = (of_char c :: nat) in
      if 48 \<le> n \<and> n \<le> 57 then Some (n - 48)
      else if 97 \<le> n \<and> n \<le> 102 then Some (n - 87)
      else if 65 \<le> n \<and> n \<le> 70 then Some (n - 55)
      else None)"

fun hex_decode :: "string \<Rightarrow> string" where
  "hex_decode (a # b # cs) =
     (case (hex_value a, hex_value b) of
        (Some x, Some y) \<Rightarrow> char_of (16 * x + y) # hex_decode cs
      | _ \<Rightarrow> [])"
| "hex_decode cs = []"

definition hex_encode :: "string \<Rightarrow> string" where
  "hex_encode buf =
     concat (map (\<lambda>c. [digit_char ((of_char c :: nat) div 16),
                         digit_char ((of_char c :: nat) mod 16)]) buf)"

definition continuation :: "nat \<Rightarrow> bool" where
  "continuation b = (128 \<le> b \<and> b \<le> 191)"

fun valid_utf8 :: "nat list \<Rightarrow> bool" where
  "valid_utf8 [] = True"
| "valid_utf8 [a] = (a < 128)"
| "valid_utf8 [a, b] =
     (if a < 128 then valid_utf8 [b] else 194 \<le> a \<and> a \<le> 223 \<and> continuation b)"
| "valid_utf8 [a, b, c] =
     (if a < 128 then valid_utf8 [b, c]
      else if 194 \<le> a \<and> a \<le> 223 then continuation b \<and> valid_utf8 [c]
      else 224 \<le> a \<and> a \<le> 239 \<and> continuation b \<and> continuation c
           \<and> (a = 224 \<longrightarrow> 160 \<le> b) \<and> (a = 237 \<longrightarrow> b \<le> 159))"
| "valid_utf8 (a # b # c # d # r) =
     (if a < 128 then valid_utf8 (b # c # d # r)
      else if 194 \<le> a \<and> a \<le> 223 then continuation b \<and> valid_utf8 (c # d # r)
      else if 224 \<le> a \<and> a \<le> 239
        then continuation b \<and> continuation c
             \<and> (a = 224 \<longrightarrow> 160 \<le> b) \<and> (a = 237 \<longrightarrow> b \<le> 159) \<and> valid_utf8 (d # r)
      else 240 \<le> a \<and> a \<le> 244 \<and> continuation b \<and> continuation c \<and> continuation d
           \<and> (a = 240 \<longrightarrow> 144 \<le> b) \<and> (a = 244 \<longrightarrow> b \<le> 143) \<and> valid_utf8 r)"

definition example_env :: extern where
  "example_env =
     \<lparr>Buffer_from = (\<lambda>v. case v of Str s \<Rightarrow> Inr s
                          | _ \<Rightarrow> Inl (TypeError ''The first argument must be a string'')),
      Buffer_from_hex = (\<lambda>s. Inr (hex_decode s)),
      Buffer_toString_hex = hex_encode,
      isUtf8 = (\<lambda>buf. valid_utf8 (map of_char buf)),
      JSON_parse = (\<lambda>v. Inl (OtherError ''SyntaxError'')),
      TypedDataUtils_sign = (\<lambda>m v4. Inl (OtherError ''Error'')),
      location_origin = ''https://dapp.example'',
      iconLink = ''https://dapp.example/favicon.ico''\<rparr>"

definition example_ids :: "nat \<Rightarrow> int" where
  "example_ids k = 1000 + int k"

definition example_config :: "jsval \<Rightarrow> jsval \<Rightarrow> config" where
  "example_config a c =
     \<lparr>cfg_address = a, cfg_chainId = c, cfg_rpcUrl = Str ''https://rpc.example'',
      cfg_isDebug = Undefined, cfg_isProxyRPC = Undefined\<rparr>"

section \<open>Notions used in the statements\<close>

text \<open>The session state of a provider, and its invariant: the address is in
  lower case and \<open>ready\<close> says that it is not empty.\<close>

definition session :: "provider \<Rightarrow> string \<times> bool \<times> jsval \<times> string" where
  "session p = (address p, ready p, chainId p, networkVersion p)"

definition session_ok :: "provider \<Rightarrow> bool" where
  "session_ok p = (toLowerCase (address p) = address p \<and> ready p = (address p \<noteq> []))"

text \<open>The id the correlator mints next, and the id under which the next \<open>_request\<close>
  registers its call: the minted id, or the id line 198 generates when the minted
  one is falsy.\<close>

definition next_id :: "provider \<Rightarrow> int" where
  "next_id p = max (genIds p (genCalls p)) (lastId p + 1)"

definition internal_id :: "provider \<Rightarrow> jsval" where
  "internal_id p =
     (if next_id p \<noteq> 0 then Num (next_id p) else Num (genIds p (Suc (genCalls p))))"

text \<open>The id of the reply built for internal id \<open>i\<close>: \<open>tryPopId(id) || id\<close>.\<close>

definition origin_of :: "provider \<Rightarrow> jsval \<Rightarrow> jsval" where
  "origin_of p i = (case idMapping p i of None \<Rightarrow> i | Some e \<Rightarrow> if truthy e then e else i)"

text \<open>The value a pending call is resolved with: the reply when the call expects
  the envelope, the raw result otherwise.\<close>

definition shaped :: "jsval \<Rightarrow> jsval \<Rightarrow> jsval \<Rightarrow> jsval" where
  "shaped wrapResult originId result =
     (if truthy wrapResult then reply originId result else result)"

text \<open>The first two steps of \<open>_request\<close>: normalising the id, then registering.\<close>

definition registered :: "provider \<Rightarrow> payload \<Rightarrow> jsval \<Rightarrow> provider \<times> payload \<times> nat" where
  "registered p pl wrapResult =
     (let (p1, pl1) = tryIntifyId p pl in register p1 pl1 wrapResult)"

definition not_ready :: jserror where
  "not_ready = ProviderRpcError 4100 ''provider is not ready''"


text \<open>The page of the example configuration with address \<open>a\<close> and chain id \<open>c\<close>.\<close>

definition example_page :: "jsval \<Rightarrow> jsval \<Rightarrow> window" where
  "example_page a c =
     (case constructor example_ids (example_config a c) of
        Inr p \<Rightarrow> \<lparr>ethereum = p, frames = []\<rparr>
      | Inl e \<Rightarrow> \<lparr>ethereum = blank example_ids, frames = []\<rparr>)"

definition call :: "jsval \<Rightarrow> string \<Rightarrow> jsval list option \<Rightarrow> payload" where
  "call i m ps = \<lparr>pid = i, pjsonrpc = Undefined, pmethod = m, pparams = ps\<rparr>"

text \<open>The methods answered from the session state, and the answers the
  specification gives them (sections 4.3 and 8): the account list,
  the selected account, the network id and the chain id.\<close>

definition local_methods :: "string list" where
  "local_methods = [''eth_accounts'', ''eth_coinbase'', ''net_version'', ''eth_chainId'']"

definition claimed_local_answer :: "string \<times> bool \<times> jsval \<times> string \<Rightarrow> string \<Rightarrow> jsval" where
  "claimed_local_answer s m =
     (case s of (addr, rdy, chain, net) \<Rightarrow>
        if m = ''eth_accounts'' then (if addr \<noteq> [] then Arr [Str addr] else Arr [])
        else if m = ''eth_coinbase'' then Str addr
        else if m = ''net_version'' then Str net
        else chain)"

text \<open>The configuration \<open>{chainId: 1}\<close>.\<close>

definition only_chainId :: config where
  "only_chainId =
     \<lparr>cfg_address = Undefined, cfg_chainId = Num 1, cfg_rpcUrl = Undefined,
      cfg_isDebug = Undefined, cfg_isProxyRPC = Undefined\<rparr>"







text \<open>The method names that are \<open>case\<close> labels of the \<open>switch\<close> of index.js (those of
  part_000 are among them).\<close>

definition routed_methods :: "string list" where
  "routed_methods =
     [''eth_accounts'', ''eth_coinbase'', ''net_version'', ''eth_chainId'', ''eth_sign'',
      ''personal_sign'', ''personal_ecRecover'', ''eth_signTypedData_v3'',
      ''eth_signTypedData'', ''eth_signTypedData_v4'', ''eth_sendTransaction'',
      ''eth_requestAccounts'', ''wallet_watchAsset'', ''wallet_addEthereumChain'',
      ''wallet_switchEthereumChain'', ''wallet_getPermissions'',
      ''wallet_requestPermissions'', ''eth_newFilter'', ''eth_newBlockFilter'',
      ''eth_newPendingTransactionFilter'', ''eth_uninstallFilter'', ''eth_subscribe'']"

section \<open>Normal forms of the primitive steps\<close>

lemma tryPopId_snd: "snd (tryPopId p i) = p\<lparr>idMapping := (idMapping p)(i := None)\<rparr>"
  by (cases "idMapping p i") (simp_all add: tryPopId_def fun_upd_idem)

lemma tryPopId_fst:
  "fst (tryPopId p i) = (case idMapping p i of None \<Rightarrow> Undefined | Some e \<Rightarrow> e)"
  by (simp add: tryPopId_def split: option.splits)

lemma settle_eq:
  "settle h out p =
     p\<lparr>promises := (promises p)(h \<mapsto> (case promises p h of None \<Rightarrow> out | Some old \<Rightarrow> old))\<rparr>"
  by (cases "promises p h") (simp_all add: settle_def fun_upd_idem)

lemma sendError_eq:
  "sendError p i err =
     (case callbacks p i of
        None \<Rightarrow> p
      | Some h \<Rightarrow>
          p\<lparr>promises := (promises p)(h \<mapsto> (case promises p h of
                 None \<Rightarrow> Rejected (case err of Inl e \<Rightarrow> e | Inr v \<Rightarrow> Error v)
               | Some old \<Rightarrow> old)),
            callbacks := (callbacks p)(i := None)\<rparr>)"
  by (simp add: sendError_def settle_eq split: option.splits)

lemma sendResponse_own_found:
  assumes "callbacks p i = Some h"
  shows "sendResponse_own p i r =
    (p\<lparr>idMapping := (idMapping p)(i := None),
       promises := (promises p)(h \<mapsto> (case promises p h of
           None \<Rightarrow> Resolved (shaped (case wrapResults p i of None \<Rightarrow> Undefined | Some b \<Rightarrow> b)
                                (origin_of p i) r)
         | Some old \<Rightarrow> old)),
       callbacks := (callbacks p)(i := None)\<rparr>, True)"
proof -
  obtain e q where a: "tryPopId p i = (e, q)" by force
  have q: "q = p\<lparr>idMapping := (idMapping p)(i := None)\<rparr>"
    using tryPopId_snd[of p i] a by simp
  have e: "(if truthy e then e else i) = origin_of p i"
    using tryPopId_fst[of p i] a by (simp add: origin_of_def split: option.splits)
  show ?thesis
    unfolding sendResponse_own_def a Let_def prod.case e q settle_eq shaped_def
    using assms by simp
qed

lemma sendResponse_own_missing:
  assumes "callbacks p i = None"
  shows "sendResponse_own p i r = (p\<lparr>idMapping := (idMapping p)(i := None)\<rparr>, False)"
proof -
  obtain e q where a: "tryPopId p i = (e, q)" by force
  have q: "q = p\<lparr>idMapping := (idMapping p)(i := None)\<rparr>"
    using tryPopId_snd[of p i] a by simp
  show ?thesis
    unfolding sendResponse_own_def a Let_def prod.case q
    using assms by simp
qed

lemma sendResponse_found:
  assumes "callbacks (ethereum w) i = Some h"
  shows "sendResponse w i r = w\<lparr>ethereum := fst (sendResponse_own (ethereum w) i r)\<rparr>"
  by (simp add: sendResponse_def sendResponse_own_found[OF assms])

lemma sendResponse_missing:
  assumes "callbacks (ethereum w) i = None"
  shows "sendResponse w i r =
     w\<lparr>ethereum := (ethereum w)\<lparr>idMapping := (idMapping (ethereum w))(i := None)\<rparr>,
       frames := map (sendResponse_frame i r) (frames w)\<rparr>"
  by (simp add: sendResponse_def sendResponse_own_missing[OF assms])

lemma registered_eq:
  "registered p pl wr =
    (p\<lparr>genCalls := (if next_id p \<noteq> 0 then Suc (genCalls p) else Suc (Suc (genCalls p))),
       lastId := next_id p,
       idMapping := (if pid pl = Undefined then idMapping p
                     else (idMapping p)(Num (next_id p) \<mapsto> pid pl)),
       promises := (promises p)(nextPromise p := None),
       nextPromise := Suc (nextPromise p),
       callbacks := (callbacks p)(internal_id p \<mapsto> nextPromise p),
       wrapResults := (wrapResults p)(internal_id p \<mapsto> wr)\<rparr>,
     pl\<lparr>pid := internal_id p,
        pjsonrpc := (if truthy (pjsonrpc pl) then pjsonrpc pl else Str ''2.0'')\<rparr>,
     nextPromise p)"
  by (simp add: registered_def tryIntifyId_def mint_def register_def Let_def genId_def
      internal_id_def next_id_def)

lemma request_internal_eq:
  "request_internal ext w pl arg =
     (let wr = default_true arg;
          r = registered (ethereum w) pl wr;
          d = dispatch ext (w\<lparr>ethereum := fst r\<rparr>) (fst (snd r)) wr (snd (snd r))
      in (case snd d of
            None \<Rightarrow> fst d
          | Some e \<Rightarrow> (fst d)\<lparr>ethereum := settle (snd (snd r)) (Rejected e) (ethereum (fst d))\<rparr>,
          snd (snd r)))"
  by (simp add: request_internal_def registered_def Let_def split: prod.splits option.splits)


section \<open>Local answers\<close>

lemma dispatch_local:
  "pmethod pl = ''eth_accounts'' \<Longrightarrow>
     dispatch ext w pl wr h = (sendResponse w (pid pl) (eth_accounts (ethereum w)), None)"
  "pmethod pl = ''eth_coinbase'' \<Longrightarrow>
     dispatch ext w pl wr h = (sendResponse w (pid pl) (eth_coinbase (ethereum w)), None)"
  "pmethod pl = ''net_version'' \<Longrightarrow>
     dispatch ext w pl wr h = (sendResponse w (pid pl) (net_version (ethereum w)), None)"
  "pmethod pl = ''eth_chainId'' \<Longrightarrow>
     dispatch ext w pl wr h = (sendResponse w (pid pl) (eth_chainId (ethereum w)), None)"
  by (simp_all add: dispatch_def)

lemma registered_fields:
  "pmethod (fst (snd (registered p pl wr))) = pmethod pl"
  "pparams (fst (snd (registered p pl wr))) = pparams pl"
  "pid (fst (snd (registered p pl wr))) = internal_id p"
  "snd (snd (registered p pl wr)) = nextPromise p"
  "callbacks (fst (registered p pl wr)) (internal_id p) = Some (nextPromise p)"
  "wrapResults (fst (registered p pl wr)) (internal_id p) = Some wr"
  "promises (fst (registered p pl wr)) (nextPromise p) = None"
  "session (fst (registered p pl wr)) = session p"
  "posted (fst (registered p pl wr)) = posted p"
  "rpcCalls (fst (registered p pl wr)) = rpcCalls p"
  "address (fst (registered p pl wr)) = address p"
  "ready (fst (registered p pl wr)) = ready p"
  "isProxyRPC (fst (registered p pl wr)) = isProxyRPC p"
  "lastId (fst (registered p pl wr)) = next_id p"
  by (simp_all add: registered_eq session_def)

lemma request_local:
  assumes d: "\<And>w' pl' wr' h'. pmethod pl' = pmethod pl \<Longrightarrow>
        dispatch ext w' pl' wr' h' = (sendResponse w' (pid pl') (f (ethereum w')), None)"
    and f: "f (fst (registered (ethereum w) pl wr)) = v"
    and wr: "wr = default_true arg"
  shows "request_internal ext w pl arg =
     (w\<lparr>ethereum := fst (sendResponse_own (fst (registered (ethereum w) pl wr))
                          (internal_id (ethereum w)) v)\<rparr>,
      nextPromise (ethereum w))"
proof -
  let ?r = "registered (ethereum w) pl wr"
  have "dispatch ext (w\<lparr>ethereum := fst ?r\<rparr>) (fst (snd ?r)) wr (snd (snd ?r))
      = (sendResponse (w\<lparr>ethereum := fst ?r\<rparr>) (internal_id (ethereum w)) v, None)"
    using d[of "fst (snd ?r)" "w\<lparr>ethereum := fst ?r\<rparr>" wr "snd (snd ?r)"] f
    by (simp add: registered_fields)
  moreover have "sendResponse (w\<lparr>ethereum := fst ?r\<rparr>) (internal_id (ethereum w)) v
      = w\<lparr>ethereum := fst (sendResponse_own (fst ?r) (internal_id (ethereum w)) v)\<rparr>"
    using sendResponse_found[of "w\<lparr>ethereum := fst ?r\<rparr>" "internal_id (ethereum w)"
        "nextPromise (ethereum w)" v]
    by (simp add: registered_fields)
  ultimately show ?thesis
    unfolding request_internal_eq Let_def wr[symmetric]
    by (simp add: registered_fields)
qed

lemma local_outcome:
  "promises (fst (sendResponse_own (fst (registered p pl wr)) (internal_id p) v)) (nextPromise p)
     = Some (Resolved (shaped wr (origin_of (fst (registered p pl wr)) (internal_id p)) v))"
  "posted (fst (sendResponse_own (fst (registered p pl wr)) (internal_id p) v)) = posted p"
  "rpcCalls (fst (sendResponse_own (fst (registered p pl wr)) (internal_id p) v)) = rpcCalls p"
  "callbacks (fst (sendResponse_own (fst (registered p pl wr)) (internal_id p) v)) (internal_id p) = None"
  using sendResponse_own_found[of "fst (registered p pl wr)" "internal_id p" "nextPromise p" v]
  by (simp_all add: registered_fields)


lemma request_local_methods:
  assumes m: "pmethod pl \<in> set local_methods"
    and wr: "wr = default_true arg"
  shows "request_internal ext w pl arg =
     (w\<lparr>ethereum := fst (sendResponse_own (fst (registered (ethereum w) pl wr))
                          (internal_id (ethereum w))
                          (claimed_local_answer (session (ethereum w)) (pmethod pl)))\<rparr>,
      nextPromise (ethereum w))"
proof -
  let ?r = "fst (registered (ethereum w) pl wr)"
  have s: "session ?r = session (ethereum w)" by (simp add: registered_fields)
  consider "pmethod pl = ''eth_accounts''" | "pmethod pl = ''eth_coinbase''"
    | "pmethod pl = ''net_version''" | "pmethod pl = ''eth_chainId''"
    using m by (auto simp: local_methods_def)
  then show ?thesis
  proof cases
    case 1
    have "eth_accounts ?r = claimed_local_answer (session (ethereum w)) (pmethod pl)"
      using s 1 by (simp add: eth_accounts_def claimed_local_answer_def session_def)
    then show ?thesis
      using request_local[of pl ext eth_accounts w wr _ arg] 1 wr by (simp add: dispatch_local)
  next
    case 2
    have "eth_coinbase ?r = claimed_local_answer (session (ethereum w)) (pmethod pl)"
      using s 2 by (simp add: eth_coinbase_def claimed_local_answer_def session_def)
    then show ?thesis
      using request_local[of pl ext eth_coinbase w wr _ arg] 2 wr by (simp add: dispatch_local)
  next
    case 3
    have "net_version ?r = claimed_local_answer (session (ethereum w)) (pmethod pl)"
      using s 3 by (simp add: net_version_def claimed_local_answer_def session_def)
    then show ?thesis
      using request_local[of pl ext net_version w wr _ arg] 3 wr by (simp add: dispatch_local)
  next
    case 4
    have "eth_chainId ?r = claimed_local_answer (session (ethereum w)) (pmethod pl)"
      using s 4 by (simp add: eth_chainId_def claimed_local_answer_def session_def)
    then show ?thesis
      using request_local[of pl ext eth_chainId w wr _ arg] 4 wr by (simp add: dispatch_local)
  qed
qed

lemma constructor_only_chainId:
  "constructor gen only_chainId =
     Inr ((blank gen)\<lparr>chainId := Str ''0x1'', networkVersion := ''1'',
            emitted := [(''connect'', Obj [(''chainId'', Str ''0x1'')])]\<rparr>)"
  by (simp add: constructor_def setConfig_def setAddress_def only_chainId_def blank_def
      intToHex_def int_toString_def emitConnect_def toLowerCase_def digit_char_def)


lemma example_page_eq:
  "example_page a c =
     (case setConfig (blank example_ids) (example_config a c) of
        Inr p \<Rightarrow> \<lparr>ethereum = p\<lparr>emitted := [(''connect'', Obj [(''chainId'', chainId p)])]\<rparr>,
                   frames = []\<rparr>
      | Inl e \<Rightarrow> \<lparr>ethereum = blank example_ids, frames = []\<rparr>)"
  by (simp add: example_page_def constructor_def emitConnect_def blank_def setConfig_def
      setAddress_def example_config_def split: sum.splits jsval.splits)

lemma toLowerCase_example: "toLowerCase ''0xAbC'' = ''0xabc''"
  by code_simp

lemma example_page_session:
  "session (ethereum (example_page (Str ''0xAbC'') (Num 1))) = (''0xabc'', True, Str ''0x1'', ''1'')"
  by (simp add: example_page_eq setConfig_def setAddress_def example_config_def blank_def
      session_def toLowerCase_example intToHex_def int_toString_def digit_char_def)

text \<open>
  \<^bold>\<open>C5\<close>. A call of \<open>eth_accounts\<close>, \<open>eth_coinbase\<close>, \<open>net_version\<close> or
  \<open>eth_chainId\<close> is settled when \<open>_request\<close> returns: its promise is resolved with the
  answer computed from the session state (wrapped in the reply when the caller
  expects the envelope), nothing is posted to the host and no upstream call is made.
  With the configuration \<open>{chainId: 1}\<close>, \<open>request({method: "eth_chainId"})\<close> resolves
  to \<open>"0x1"\<close>.
\<close>

theorem local_methods_settle:
  "(pmethod pl \<in> set local_methods \<longrightarrow>
      (\<exists>i. promises (ethereum (fst (request_internal ext w pl arg)))
              (snd (request_internal ext w pl arg))
            = Some (Resolved (shaped (default_true arg) i
                      (claimed_local_answer (session (ethereum w)) (pmethod pl)))))
      \<and> posted (ethereum (fst (request_internal ext w pl arg))) = posted (ethereum w)
      \<and> rpcCalls (ethereum (fst (request_internal ext w pl arg))) = rpcCalls (ethereum w))
   \<and> (\<exists>p. constructor gen only_chainId = Inr p
          \<and> promises (ethereum (fst (request ext \<lparr>ethereum = p, frames = fs\<rparr>
                                        (call Undefined ''eth_chainId'' None))))
              (snd (request ext \<lparr>ethereum = p, frames = fs\<rparr> (call Undefined ''eth_chainId'' None)))
            = Some (Resolved (Str ''0x1'')))"
proof -
  have a: "pmethod (call Undefined ''eth_chainId'' None) \<in> set local_methods"
    by (simp add: call_def local_methods_def)
  show ?thesis
    apply (intro conjI impI)
    subgoal
      by (simp add: request_local_methods[OF _ refl] local_outcome) blast
    subgoal
      by (simp add: request_local_methods[OF _ refl] local_outcome)
    subgoal
      by (simp add: request_local_methods[OF _ refl] local_outcome)
    subgoal
      unfolding request_def
      by (simp add: request_local_methods[OF a refl] local_outcome constructor_only_chainId
          shaped_def default_true_def)
        (simp add: claimed_local_answer_def session_def call_def blank_def)
    done
qed

theorem local_methods_settle_witness:
  "pmethod (call (Num 7) ''eth_accounts'' None) \<in> set local_methods
   \<and> (\<exists>i. promises (ethereum (fst (request_internal example_env
                (example_page (Str ''0xAbC'') (Num 1)) (call (Num 7) ''eth_accounts'' None) Undefined)))
            (snd (request_internal example_env
                (example_page (Str ''0xAbC'') (Num 1)) (call (Num 7) ''eth_accounts'' None) Undefined))
          = Some (Resolved (Obj [(''jsonrpc'', Str ''2.0''), (''id'', i),
                                 (''result'', Arr [Str ''0xabc''])])))
   \<and> posted (ethereum (fst (request_internal example_env
                (example_page (Str ''0xAbC'') (Num 1)) (call (Num 7) ''eth_accounts'' None) Undefined)))
       = []"
proof -
  have m: "pmethod (call (Num 7) ''eth_accounts'' None) \<in> set local_methods"
    by (simp add: call_def local_methods_def)
  have p: "posted (ethereum (example_page (Str ''0xAbC'') (Num 1))) = []"
    by (simp add: example_page_eq setConfig_def setAddress_def example_config_def blank_def)
  have v: "claimed_local_answer (''0xabc'', True, Str ''0x1'', ''1'')
             (pmethod (call (Num 7) ''eth_accounts'' None)) = Arr [Str ''0xabc'']"
    by (simp add: claimed_local_answer_def call_def)
  have u: "\<And>i. shaped (Bool True) i (Arr [Str ''0xabc''])
      = Obj [(''jsonrpc'', Str ''2.0''), (''id'', i), (''result'', Arr [Str ''0xabc''])]"
    by (simp add: shaped_def reply_def unwrapResult_def)
  show ?thesis
    using local_methods_settle[where pl = "call (Num 7) ''eth_accounts'' None"
        and ext = example_env and w = "example_page (Str ''0xAbC'') (Num 1)" and arg = Undefined] m
    by (simp add: example_page_session p v u default_true_def)
qed

section \<open>The session state\<close>

lemma char_toLower_idem: "char_toLower (char_toLower c) = char_toLower c"
  by (cases c) (auto simp: char_toLower_def Let_def)

lemma toLowerCase_idem: "toLowerCase (toLowerCase s) = toLowerCase s"
  by (simp add: toLowerCase_def char_toLower_idem)

lemma toLowerCase_Nil: "(toLowerCase s = []) = (s = [])"
  by (simp add: toLowerCase_def)

lemma setAddress_ok:
  assumes "setAddress p a = Inr q"
  shows "session_ok q \<and> (truthy a \<or> address q = [])"
  using assms
  by (auto simp: setAddress_def session_ok_def toLowerCase_idem toLowerCase_Nil
      split: if_splits jsval.splits)

lemma setAddress_part0_ok:
  assumes "setAddress_part0 p a = Inr q"
  shows "session_ok q \<and> (truthy a \<or> address q = [])"
  using assms
  by (auto simp: setAddress_part0_def session_ok_def toLowerCase_idem toLowerCase_Nil
      split: if_splits jsval.splits)

lemma setConfig_ok:
  assumes "setConfig p c = Inr q"
  shows "session_ok q \<and> (truthy (cfg_address c) \<or> address q = [])"
proof -
  obtain p1 where a: "setAddress p (cfg_address c) = Inr p1"
    and q: "address q = address p1" "ready q = ready p1"
    using assms by (auto simp: setConfig_def split: sum.splits)
  show ?thesis using setAddress_ok[OF a] q by (simp add: session_ok_def)
qed

lemma setConfig_part0_ok:
  assumes "setConfig_part0 p c = Inr q"
  shows "session_ok q \<and> (truthy (cfg_address c) \<or> address q = [])"
proof -
  obtain p1 where a: "setAddress_part0 p (cfg_address c) = Inr p1"
    and q: "address q = address p1" "ready q = ready p1"
    using assms by (auto simp: setConfig_part0_def split: sum.splits)
  show ?thesis using setAddress_part0_ok[OF a] q by (simp add: session_ok_def)
qed

lemma constructor_ok:
  assumes "constructor gen c = Inr q"
  shows "session_ok q \<and> (truthy (cfg_address c) \<or> address q = [])"
proof -
  obtain p1 where a: "setConfig (blank gen) c = Inr p1"
    and q: "address q = address p1" "ready q = ready p1"
    using assms by (auto simp: constructor_def emitConnect_def Let_def split: sum.splits)
  show ?thesis using setConfig_ok[OF a] q by (simp add: session_ok_def)
qed

lemma constructor_part0_ok:
  assumes "constructor_part0 gen c = Inr q"
  shows "session_ok q \<and> (truthy (cfg_address c) \<or> address q = [])"
proof -
  obtain p1 where a: "setConfig_part0 (blank gen) c = Inr p1"
    and q: "address q = address p1" "ready q = ready p1"
    using assms by (auto simp: constructor_part0_def emitConnect_def Let_def split: sum.splits)
  show ?thesis using setConfig_part0_ok[OF a] q by (simp add: session_ok_def)
qed

lemma session_settle: "session (settle h out p) = session p"
  by (simp add: settle_eq session_def)

lemma session_sendError: "session (sendError p i e) = session p"
  by (simp add: sendError_eq session_def split: option.splits)

lemma session_postMessage: "session (postMessage ext p a i d) = session p"
  by (simp add: postMessage_def session_sendError) (simp add: session_def)

lemma session_postMessage_part0: "session (postMessage_part0 p a i d) = session p"
  by (simp add: postMessage_part0_def session_sendError) (simp add: session_def)

lemma session_sendResponse_own: "session (fst (sendResponse_own p i r)) = session p"
  by (cases "callbacks p i")
    (simp_all add: sendResponse_own_found sendResponse_own_missing session_def)

lemma session_sendResponse: "session (ethereum (sendResponse w i r)) = session (ethereum w)"
  using session_sendResponse_own[of "ethereum w" i r]
  by (auto simp: sendResponse_def split: prod.splits)

lemma session_sendResponse_own_part0:
  "session (fst (sendResponse_own_part0 p i r)) = session p"
proof -
  obtain e q where a: "tryPopId p i = (e, q)" by force
  have q: "q = p\<lparr>idMapping := (idMapping p)(i := None)\<rparr>"
    using tryPopId_snd[of p i] a by simp
  show ?thesis
    unfolding sendResponse_own_part0_def a Let_def prod.case q settle_eq
    by (simp add: session_def split: option.splits)
qed

lemma session_sendResponse_part0:
  "session (ethereum (fst (sendResponse_part0 w i r))) = session (ethereum w)"
  using session_sendResponse_own_part0[of "ethereum w" i r]
  by (auto simp: sendResponse_part0_def split: prod.splits sum.splits)

lemma session_handlers:
  "wallet_rpcCall ext p pl = Inr q \<Longrightarrow> session q = session p"
  "eth_sign ext p pl = Inr q \<Longrightarrow> session q = session p"
  "personal_sign ext p pl = Inr q \<Longrightarrow> session q = session p"
  "personal_ecRecover ext p pl = Inr q \<Longrightarrow> session q = session p"
  "eth_signTypedData ext p pl v4 = Inr q \<Longrightarrow> session q = session p"
  "eth_sendTransaction ext p pl = Inr q \<Longrightarrow> session q = session p"
  "eth_requestAccounts ext p pl = Inr q \<Longrightarrow> session q = session p"
  "wallet_watchAsset ext p pl = Inr q \<Longrightarrow> session q = session p"
  "wallet_addEthereumChain ext p pl = Inr q \<Longrightarrow> session q = session p"
  "wallet_switchEthereumChain ext p pl = Inr q \<Longrightarrow> session q = session p"
  "wallet_getPermissions ext p pl = Inr q \<Longrightarrow> session q = session p"
  "wallet_requestPermissions ext p pl = Inr q \<Longrightarrow> session q = session p"
  by (auto simp: wallet_rpcCall_def eth_sign_def personal_sign_def personal_ecRecover_def
      eth_signTypedData_def eth_sendTransaction_def eth_requestAccounts_def
      wallet_watchAsset_def wallet_addEthereumChain_def wallet_switchEthereumChain_def
      wallet_getPermissions_def wallet_requestPermissions_def session_postMessage Let_def
      split: sum.splits if_splits option.splits)

lemma session_handlers_part0:
  "eth_sign_part0 ext p pl = Inr q \<Longrightarrow> session q = session p"
  "personal_sign_part0 ext p pl = Inr q \<Longrightarrow> session q = session p"
  "personal_ecRecover_part0 p pl = Inr q \<Longrightarrow> session q = session p"
  "eth_signTypedData_part0 p pl = Inr q \<Longrightarrow> session q = session p"
  "eth_sendTransaction_part0 p pl = Inr q \<Longrightarrow> session q = session p"
  "eth_requestAccounts_part0 p pl = Inr q \<Longrightarrow> session q = session p"
  "wallet_watchAsset_part0 p pl = Inr q \<Longrightarrow> session q = session p"
  "wallet_addEthereumChain_part0 p pl = Inr q \<Longrightarrow> session q = session p"
  by (auto simp: eth_sign_part0_def personal_sign_part0_def personal_ecRecover_part0_def
      eth_signTypedData_part0_def eth_sendTransaction_part0_def eth_requestAccounts_part0_def
      wallet_watchAsset_part0_def wallet_addEthereumChain_part0_def
      session_postMessage_part0 Let_def
      split: sum.splits if_splits option.splits)

lemma session_handled:
  "(\<And>q. r = Inr q \<Longrightarrow> session q = session (ethereum w)) \<Longrightarrow>
   session (ethereum (fst (handled w r))) = session (ethereum w)"
  by (cases r) (simp_all add: handled_def)

lemma session_if:
  "session (ethereum (fst a)) = s \<Longrightarrow> session (ethereum (fst b)) = s \<Longrightarrow>
   session (ethereum (fst (if c then a else b))) = s"
  by simp

lemma session_dispatch:
  "session (ethereum (fst (dispatch ext w pl wr h))) = session (ethereum w)"
  unfolding dispatch_def Let_def
  apply (intro session_if)
  apply (simp_all add: session_sendResponse session_handled session_handlers split del: if_split)
  apply (simp add: session_def)
  done

lemma session_dispatch_part0:
  "session (ethereum (fst (dispatch_part0 ext w pl wr h))) = session (ethereum w)"
  unfolding dispatch_part0_def Let_def
  apply (intro session_if)
  apply (simp_all add: session_sendResponse_part0 session_handled session_handlers_part0
      split del: if_split)
  apply (simp add: session_def)
  done

lemma session_request_internal:
  "session (ethereum (fst (request_internal ext w pl arg))) = session (ethereum w)"
proof -
  let ?wr = "default_true arg"
  let ?r = "registered (ethereum w) pl ?wr"
  have "session (ethereum (fst (dispatch ext (w\<lparr>ethereum := fst ?r\<rparr>) (fst (snd ?r)) ?wr
            (snd (snd ?r))))) = session (ethereum w)"
    by (simp add: session_dispatch registered_fields)
  then show ?thesis
    unfolding request_internal_eq Let_def
    by (simp add: session_settle split: option.splits)
qed

lemma request_internal_part0_eq:
  "request_internal_part0 ext w pl arg =
     (let wr = default_true arg;
          r = registered (ethereum w) pl wr;
          d = dispatch_part0 ext (w\<lparr>ethereum := fst r\<rparr>) (fst (snd r)) wr (snd (snd r))
      in (case snd d of
            None \<Rightarrow> fst d
          | Some e \<Rightarrow> (fst d)\<lparr>ethereum := settle (snd (snd r)) (Rejected e) (ethereum (fst d))\<rparr>,
          snd (snd r)))"
  by (simp add: request_internal_part0_def registered_def Let_def split: prod.splits option.splits)

lemma session_request_internal_part0:
  "session (ethereum (fst (request_internal_part0 ext w pl arg))) = session (ethereum w)"
proof -
  let ?wr = "default_true arg"
  let ?r = "registered (ethereum w) pl ?wr"
  have "session (ethereum (fst (dispatch_part0 ext (w\<lparr>ethereum := fst ?r\<rparr>) (fst (snd ?r)) ?wr
            (snd (snd ?r))))) = session (ethereum w)"
    by (simp add: session_dispatch_part0 registered_fields)
  then show ?thesis
    unfolding request_internal_part0_eq Let_def
    by (simp add: session_settle split: option.splits)
qed

lemma session_request_each:
  "session (ethereum (fst (request_each ext w pls k))) = session (ethereum w)"
  by (induction pls arbitrary: w k) (simp_all add: split_beta session_request_internal)

lemma session_sendAsync:
  "session (ethereum (fst (sendAsync ext w b))) = session (ethereum w)"
  by (cases b)
    (simp_all add: sendAsync_def split_beta session_request_each session_request_internal)

lemma session_genCalls: "session (p\<lparr>genCalls := n\<rparr>) = session p"
  by (simp add: session_def)

lemma session_send:
  assumes "send ext w x y = Inr r"
  shows "session (ethereum (fst r)) = session (ethereum w)"
  using assms unfolding send_def Let_def genId_def
  by (auto simp: split_beta session_request_internal session_genCalls
      split: sum.splits if_splits)

lemma session_rpc_settled:
  "session (ethereum (rpc_settled w h wr r)) = session (ethereum w)"
  by (simp add: rpc_settled_def session_settle split: sum.splits)

text \<open>
  \<^bold>\<open>C9\<close>. After \<open>setAddress\<close>, \<open>setConfig\<close> and the constructor (of either variant)
  the address is a lower-case string, empty when the address given is absent (or
  falsy), and \<open>ready\<close> holds exactly when the address is not empty. No other
  operation of the provider changes \<open>address\<close>, \<open>ready\<close>, \<open>chainId\<close> or
  \<open>networkVersion\<close>: not \<open>request\<close>, \<open>_request\<close>, \<open>sendAsync\<close>, \<open>send\<close>,
  \<open>sendResponse\<close>, \<open>sendError\<close>, \<open>postMessage\<close>, nor the continuation of an upstream
  call.
\<close>

theorem session_state_invariant:
  "(setAddress p1 a1 = Inr q1 \<longrightarrow> session_ok q1 \<and> (truthy a1 \<or> address q1 = []))
   \<and> (setConfig p2 c2 = Inr q2 \<longrightarrow> session_ok q2 \<and> (truthy (cfg_address c2) \<or> address q2 = []))
   \<and> (constructor g3 c3 = Inr q3 \<longrightarrow> session_ok q3 \<and> (truthy (cfg_address c3) \<or> address q3 = []))
   \<and> (setAddress_part0 p4 a4 = Inr q4 \<longrightarrow> session_ok q4 \<and> (truthy a4 \<or> address q4 = []))
   \<and> (setConfig_part0 p5 c5 = Inr q5 \<longrightarrow>
         session_ok q5 \<and> (truthy (cfg_address c5) \<or> address q5 = []))
   \<and> (constructor_part0 g6 c6 = Inr q6 \<longrightarrow>
         session_ok q6 \<and> (truthy (cfg_address c6) \<or> address q6 = []))
   \<and> session (ethereum (fst (request ext w pl))) = session (ethereum w)
   \<and> session (ethereum (fst (request_internal ext w pl arg))) = session (ethereum w)
   \<and> session (ethereum (fst (sendAsync ext w b))) = session (ethereum w)
   \<and> (send ext w x y = Inr r \<longrightarrow> session (ethereum (fst r)) = session (ethereum w))
   \<and> session (ethereum (sendResponse w i res)) = session (ethereum w)
   \<and> session (sendError (ethereum w) i err) = session (ethereum w)
   \<and> session (postMessage ext (ethereum w) action i d) = session (ethereum w)
   \<and> session (ethereum (rpc_settled w h wr answer)) = session (ethereum w)
   \<and> session (ethereum (fst (request_internal_part0 ext w pl arg))) = session (ethereum w)
   \<and> session (ethereum (fst (sendResponse_part0 w i res))) = session (ethereum w)
   \<and> session (postMessage_part0 (ethereum w) action i d) = session (ethereum w)"
  using setAddress_ok[of p1 a1 q1] setConfig_ok[of p2 c2 q2] constructor_ok[of g3 c3 q3]
    setAddress_part0_ok[of p4 a4 q4] setConfig_part0_ok[of p5 c5 q5]
    constructor_part0_ok[of g6 c6 q6] session_send[of ext w x y r]
  by (simp add: request_def session_request_internal session_sendAsync session_sendResponse
      session_sendError session_postMessage session_rpc_settled
      session_request_internal_part0 session_sendResponse_part0 session_postMessage_part0)

theorem session_state_invariant_witness:
  "(\<exists>q. setAddress (blank example_ids) (Str ''0xAbC'') = Inr q \<and> session_ok q)
   \<and> (\<exists>q. setConfig (blank example_ids) (example_config (Str ''0xAbC'') (Num 1)) = Inr q
          \<and> session_ok q)
   \<and> (\<exists>q. constructor example_ids (example_config Undefined (Num 1)) = Inr q
          \<and> session_ok q \<and> address q = [])
   \<and> (\<exists>q. setAddress_part0 (blank example_ids) (Str ''0xAbC'') = Inr q \<and> session_ok q)
   \<and> (\<exists>q. setConfig_part0 (blank example_ids) (example_config (Str ''0xAbC'') (Num 1)) = Inr q
          \<and> session_ok q)
   \<and> (\<exists>q. constructor_part0 example_ids (example_config Undefined (Num 1)) = Inr q
          \<and> session_ok q \<and> address q = [])
   \<and> (\<exists>r. send example_env (example_page (Str ''0xAbC'') (Num 1)) (Inl ''eth_chainId'')
            NoArgument = Inr r
          \<and> session (ethereum (fst r)) = (''0xabc'', True, Str ''0x1'', ''1''))"
proof -
  let ?b = "blank example_ids"
  let ?c = "example_config (Str ''0xAbC'') (Num 1)"
  let ?u = "example_config Undefined (Num 1)"
  let ?w = "example_page (Str ''0xAbC'') (Num 1)"
  obtain q1 where h1: "setAddress ?b (Str ''0xAbC'') = Inr q1"
    by (simp add: setAddress_def)
  obtain q2 where h2: "setConfig ?b ?c = Inr q2"
    by (simp add: setConfig_def setAddress_def example_config_def)
  obtain q3 where h3: "constructor example_ids ?u = Inr q3"
    by (simp add: constructor_def setConfig_def setAddress_def example_config_def)
  obtain q4 where h4: "setAddress_part0 ?b (Str ''0xAbC'') = Inr q4"
    by (simp add: setAddress_part0_def)
  obtain q5 where h5: "setConfig_part0 ?b ?c = Inr q5"
    by (simp add: setConfig_part0_def setAddress_part0_def example_config_def)
  obtain q6 where h6: "constructor_part0 example_ids ?u = Inr q6"
    by (simp add: constructor_part0_def setConfig_part0_def setAddress_part0_def
        example_config_def)
  obtain r where h7: "send example_env ?w (Inl ''eth_chainId'') NoArgument = Inr r"
    by (simp add: send_def Let_def split_beta)
  have u: "cfg_address ?u = Undefined" by (simp add: example_config_def)
  show ?thesis
    using session_state_invariant[of ?b "Str ''0xAbC''" q1 ?b ?c q2 example_ids ?u q3
        ?b "Str ''0xAbC''" q4 ?b ?c q5 example_ids ?u q6 example_env ?w _ _ _
        "Inl ''eth_chainId''" NoArgument r]
      h1 h2 h3 h4 h5 h6 h7
    by (simp add: u example_page_session)
qed

section \<open>The readiness gate\<close>

lemma postMessage_closed:
  assumes "\<not> ready p" and "action \<notin> set allow_list"
  shows "postMessage ext p action i d = sendError p i (Inl not_ready)"
  using assms by (simp add: postMessage_def allow_list_def not_ready_def)

lemma postMessage_open:
  assumes "ready p \<or> action \<in> set allow_list"
  shows "postMessage ext p action i d =
     p\<lparr>posted := posted p @
         [\<lparr>msg_dapp = Some (location_origin ext, iconLink ext), msg_name = action,
           msg_payload = d, msg_id = Str (js_toString i)\<rparr>]\<rparr>"
  using assms by (auto simp: postMessage_def allow_list_def)

lemma postMessage_part0_closed:
  assumes "\<not> ready p" and "action \<noteq> ''requestAccounts''" and "action \<noteq> ''addEthereumChain''"
  shows "postMessage_part0 p action i d = sendError p i (Inl not_ready)"
  using assms by (simp add: postMessage_part0_def not_ready_def)

lemma postMessage_part0_open:
  assumes "ready p \<or> action = ''requestAccounts'' \<or> action = ''addEthereumChain''"
  shows "postMessage_part0 p action i d =
     p\<lparr>posted := posted p @
         [\<lparr>msg_dapp = None, msg_name = action, msg_payload = d, msg_id = i\<rparr>]\<rparr>"
  using assms by (auto simp: postMessage_part0_def)

lemma sendError_registered:
  assumes "callbacks p i = Some h" and "promises p h = None"
  shows "promises (sendError p i (Inl e)) h = Some (Rejected e)"
    and "callbacks (sendError p i (Inl e)) i = None"
    and "posted (sendError p i (Inl e)) = posted p"
  using assms by (simp_all add: sendError_eq)

lemma sendError_posted: "posted (sendError p i e) = posted p"
  by (simp add: sendError_eq split: option.splits)

lemma actions_part0_allowed:
  assumes "action \<in> set actions_part0"
  shows "(action \<in> set allow_list) = (action = ''requestAccounts'' \<or> action = ''addEthereumChain'')"
  using assms by (auto simp: actions_part0_def allow_list_def)

lemma dispatch_sendTransaction:
  "pmethod pl = ''eth_sendTransaction'' \<Longrightarrow>
     dispatch ext w pl wr h = handled w (eth_sendTransaction ext (ethereum w) pl)"
  by (simp add: dispatch_def)

lemma request_sendTransaction_not_ready:
  assumes m: "pmethod pl = ''eth_sendTransaction''" and ps: "pparams pl = Some xs"
    and nr: "\<not> ready (ethereum w)"
  shows "request_internal ext w pl arg =
     (w\<lparr>ethereum := sendError (fst (registered (ethereum w) pl (default_true arg)))
                        (internal_id (ethereum w)) (Inl not_ready)\<rparr>,
      nextPromise (ethereum w))"
proof -
  let ?r = "registered (ethereum w) pl (default_true arg)"
  have "eth_sendTransaction ext (fst ?r) (fst (snd ?r))
      = Inr (sendError (fst ?r) (internal_id (ethereum w)) (Inl not_ready))"
    using ps nr
    by (simp add: eth_sendTransaction_def param_at_def registered_fields postMessage_closed
        allow_list_def)
  then show ?thesis
    unfolding request_internal_eq Let_def
    using m by (simp add: dispatch_sendTransaction registered_fields handled_def)
qed

text \<open>
  \<^bold>\<open>C3\<close>. While \<open>ready\<close> is false, \<open>postMessage\<close> with an action outside the allow-list
  (\<open>requestAccounts\<close>, \<open>addEthereumChain\<close>, \<open>switchEthereumChain\<close>, \<open>getPermissions\<close>,
  \<open>requestPermissions\<close>) emits nothing and rejects the registered call with
  \<open>ProviderRpcError(4100, "provider is not ready")\<close>; with an action of the allow-list
  the message is emitted whatever \<open>ready\<close> is. The same holds in part_000 for every
  action that variant posts. Through \<open>_request\<close>: \<open>eth_sendTransaction\<close> on a provider
  that is not ready rejects the caller's promise with that error and emits nothing.
\<close>

theorem readiness_gate:
  "(\<not> ready p \<and> action \<notin> set allow_list \<longrightarrow>
      posted (postMessage ext p action i d) = posted p
      \<and> (callbacks p i = Some h \<and> promises p h = None \<longrightarrow>
           promises (postMessage ext p action i d) h
             = Some (Rejected (ProviderRpcError 4100 ''provider is not ready''))
           \<and> callbacks (postMessage ext p action i d) i = None))
   \<and> (action \<in> set allow_list \<longrightarrow>
        posted (postMessage ext p action i d) = posted p @
          [\<lparr>msg_dapp = Some (location_origin ext, iconLink ext), msg_name = action,
            msg_payload = d, msg_id = Str (js_toString i)\<rparr>])
   \<and> (action \<in> set actions_part0 \<and> \<not> ready p \<and> action \<notin> set allow_list \<longrightarrow>
        posted (postMessage_part0 p action i d) = posted p
        \<and> (callbacks p i = Some h \<and> promises p h = None \<longrightarrow>
             promises (postMessage_part0 p action i d) h
               = Some (Rejected (ProviderRpcError 4100 ''provider is not ready''))
             \<and> callbacks (postMessage_part0 p action i d) i = None))
   \<and> (action \<in> set actions_part0 \<and> action \<in> set allow_list \<longrightarrow>
        posted (postMessage_part0 p action i d) = posted p @
          [\<lparr>msg_dapp = None, msg_name = action, msg_payload = d, msg_id = i\<rparr>])
   \<and> (pmethod pl = ''eth_sendTransaction'' \<and> pparams pl = Some xs \<and> \<not> ready (ethereum w) \<longrightarrow>
        promises (ethereum (fst (request_internal ext w pl arg)))
            (snd (request_internal ext w pl arg))
          = Some (Rejected (ProviderRpcError 4100 ''provider is not ready''))
        \<and> posted (ethereum (fst (request_internal ext w pl arg))) = posted (ethereum w))"
proof (intro conjI impI)
  assume a: "\<not> ready p \<and> action \<notin> set allow_list"
  then show "posted (postMessage ext p action i d) = posted p"
    by (simp add: postMessage_closed sendError_posted)
  assume "callbacks p i = Some h \<and> promises p h = None"
  then show "promises (postMessage ext p action i d) h
      = Some (Rejected (ProviderRpcError 4100 ''provider is not ready''))"
    and "callbacks (postMessage ext p action i d) i = None"
    using a sendError_registered[of p i h not_ready]
    by (simp_all add: postMessage_closed) (simp add: not_ready_def)
next
  assume "action \<in> set allow_list"
  then show "posted (postMessage ext p action i d) = posted p @
      [\<lparr>msg_dapp = Some (location_origin ext, iconLink ext), msg_name = action,
        msg_payload = d, msg_id = Str (js_toString i)\<rparr>]"
    by (simp add: postMessage_open)
next
  assume a: "action \<in> set actions_part0 \<and> \<not> ready p \<and> action \<notin> set allow_list"
  then have c: "postMessage_part0 p action i d = sendError p i (Inl not_ready)"
    using actions_part0_allowed[of action] by (simp add: postMessage_part0_closed)
  show "posted (postMessage_part0 p action i d) = posted p"
    by (simp add: c sendError_posted)
  assume "callbacks p i = Some h \<and> promises p h = None"
  then show "promises (postMessage_part0 p action i d) h
      = Some (Rejected (ProviderRpcError 4100 ''provider is not ready''))"
    and "callbacks (postMessage_part0 p action i d) i = None"
    using sendError_registered[of p i h not_ready]
    by (simp_all add: c) (simp add: not_ready_def)
next
  assume "action \<in> set actions_part0 \<and> action \<in> set allow_list"
  then show "posted (postMessage_part0 p action i d) = posted p @
      [\<lparr>msg_dapp = None, msg_name = action, msg_payload = d, msg_id = i\<rparr>]"
    using actions_part0_allowed[of action] by (simp add: postMessage_part0_open)
next
  assume a: "pmethod pl = ''eth_sendTransaction'' \<and> pparams pl = Some xs \<and> \<not> ready (ethereum w)"
  let ?r = "fst (registered (ethereum w) pl (default_true arg))"
  have r: "request_internal ext w pl arg =
     (w\<lparr>ethereum := sendError ?r (internal_id (ethereum w)) (Inl not_ready)\<rparr>,
      nextPromise (ethereum w))"
    using a request_sendTransaction_not_ready[of pl xs w ext arg] by simp
  show "promises (ethereum (fst (request_internal ext w pl arg)))
      (snd (request_internal ext w pl arg))
      = Some (Rejected (ProviderRpcError 4100 ''provider is not ready''))"
    using sendError_registered(1)[of ?r "internal_id (ethereum w)" "nextPromise (ethereum w)"
        not_ready]
    by (simp add: r registered_fields) (simp add: not_ready_def)
  show "posted (ethereum (fst (request_internal ext w pl arg))) = posted (ethereum w)"
    by (simp add: r sendError_posted registered_fields)
qed

lemma example_page_not_ready:
  "example_page Undefined (Num 1) =
     \<lparr>ethereum = (blank example_ids)\<lparr>chainId := Str ''0x1'', networkVersion := ''1'',
          rpcUrl := Str ''https://rpc.example'',
          emitted := [(''connect'', Obj [(''chainId'', Str ''0x1'')])]\<rparr>,
       frames = []\<rparr>"
  by (simp add: example_page_eq setConfig_def setAddress_def example_config_def blank_def
      toLowerCase_def intToHex_def int_toString_def digit_char_def)

lemma example_page_ready:
  "example_page (Str ''0xAbC'') (Num 1) =
     \<lparr>ethereum = (blank example_ids)\<lparr>address := ''0xabc'', selectedAddress := ''0xabc'',
          ready := True, chainId := Str ''0x1'', networkVersion := ''1'',
          rpcUrl := Str ''https://rpc.example'',
          emitted := [(''connect'', Obj [(''chainId'', Str ''0x1'')])]\<rparr>,
       frames = []\<rparr>"
  by (simp add: example_page_eq setConfig_def setAddress_def example_config_def blank_def
      toLowerCase_example intToHex_def int_toString_def digit_char_def)

lemma example_internal_id:
  "internal_id ((blank example_ids)\<lparr>address := a, selectedAddress := s, ready := r,
      chainId := c, networkVersion := n, rpcUrl := u, emitted := e\<rparr>) = Num 1000"
  "internal_id ((blank example_ids)\<lparr>chainId := c, networkVersion := n, rpcUrl := u,
      emitted := e\<rparr>) = Num 1000"
  by (simp_all add: internal_id_def next_id_def blank_def example_ids_def)

lemma example_next_id:
  "next_id ((blank example_ids)\<lparr>address := a, selectedAddress := s, ready := r,
      chainId := c, networkVersion := n, rpcUrl := u, emitted := e\<rparr>) = 1000"
  "next_id ((blank example_ids)\<lparr>chainId := c, networkVersion := n, rpcUrl := u,
      emitted := e\<rparr>) = 1000"
  by (simp_all add: next_id_def blank_def example_ids_def)

lemma toString_1000: "int_toString 10 1000 = ''1000''"
  by code_simp

lemma example_env_page:
  "location_origin example_env = ''https://dapp.example''"
  "iconLink example_env = ''https://dapp.example/favicon.ico''"
  by (simp_all add: example_env_def)

theorem readiness_gate_witness:
  "\<not> ready (fst (registered (ethereum (example_page Undefined (Num 1)))
                  (call Undefined ''eth_sendTransaction'' (Some [Obj []])) (Bool True)))
   \<and> ''signTransaction'' \<notin> set allow_list
   \<and> ''signTransaction'' \<in> set actions_part0
   \<and> ''requestAccounts'' \<in> set allow_list
   \<and> ''requestAccounts'' \<in> set actions_part0
   \<and> posted (postMessage example_env
        (fst (registered (ethereum (example_page Undefined (Num 1)))
               (call Undefined ''eth_sendTransaction'' (Some [Obj []])) (Bool True)))
        ''signTransaction'' (Num 1000) (Obj [])) = []
   \<and> promises (postMessage example_env
        (fst (registered (ethereum (example_page Undefined (Num 1)))
               (call Undefined ''eth_sendTransaction'' (Some [Obj []])) (Bool True)))
        ''signTransaction'' (Num 1000) (Obj [])) 0
      = Some (Rejected (ProviderRpcError 4100 ''provider is not ready''))
   \<and> promises (postMessage_part0
        (fst (registered (ethereum (example_page Undefined (Num 1)))
               (call Undefined ''eth_sendTransaction'' (Some [Obj []])) (Bool True)))
        ''signTransaction'' (Num 1000) (Obj [])) 0
      = Some (Rejected (ProviderRpcError 4100 ''provider is not ready''))
   \<and> posted (postMessage example_env
        (fst (registered (ethereum (example_page Undefined (Num 1)))
               (call Undefined ''eth_sendTransaction'' (Some [Obj []])) (Bool True)))
        ''requestAccounts'' (Num 1000) (Obj []))
      = [\<lparr>msg_dapp = Some (''https://dapp.example'', ''https://dapp.example/favicon.ico''),
          msg_name = ''requestAccounts'', msg_payload = Obj [], msg_id = Str ''1000''\<rparr>]
   \<and> posted (postMessage_part0
        (fst (registered (ethereum (example_page Undefined (Num 1)))
               (call Undefined ''eth_sendTransaction'' (Some [Obj []])) (Bool True)))
        ''requestAccounts'' (Num 1000) (Obj []))
      = [\<lparr>msg_dapp = None, msg_name = ''requestAccounts'', msg_payload = Obj [],
          msg_id = Num 1000\<rparr>]
   \<and> promises (ethereum (fst (request_internal example_env (example_page Undefined (Num 1))
          (call Undefined ''eth_sendTransaction'' (Some [Obj []])) Undefined))) 0
      = Some (Rejected (ProviderRpcError 4100 ''provider is not ready''))
   \<and> posted (ethereum (fst (request_internal example_env (example_page Undefined (Num 1))
          (call Undefined ''eth_sendTransaction'' (Some [Obj []])) Undefined))) = []"
proof -
  let ?w = "example_page Undefined (Num 1)"
  let ?pl = "call Undefined ''eth_sendTransaction'' (Some [Obj []])"
  let ?p = "fst (registered (ethereum ?w) ?pl (Bool True))"
  have w: "ready (ethereum ?w) = False" "posted (ethereum ?w) = []"
    "internal_id (ethereum ?w) = Num 1000" "nextPromise (ethereum ?w) = 0"
    by (simp_all add: example_page_not_ready example_internal_id) (simp_all add: blank_def)
  have p: "\<not> ready ?p" "posted ?p = []" "callbacks ?p (Num 1000) = Some 0"
    "promises ?p 0 = None"
    using registered_fields(5,7)[of "ethereum ?w" ?pl "Bool True"]
    by (simp_all add: registered_fields w)
  have l: "''signTransaction'' \<notin> set allow_list" "''signTransaction'' \<in> set actions_part0"
    "''requestAccounts'' \<in> set allow_list" "''requestAccounts'' \<in> set actions_part0"
    by (simp_all add: allow_list_def actions_part0_def)
  have c: "pmethod ?pl = ''eth_sendTransaction''" "pparams ?pl = Some [Obj []]"
    by (simp_all add: call_def)
  have s: "snd (request_internal example_env ?w ?pl Undefined) = 0"
    using request_sendTransaction_not_ready[OF c, of ?w example_env Undefined] w by simp
  show ?thesis
    using readiness_gate[where p = ?p and action = "''signTransaction''" and ext = example_env
        and i = "Num 1000" and d = "Obj []" and h = 0 and pl = ?pl and xs = "[Obj []]"
        and w = ?w and arg = Undefined]
      readiness_gate[where p = ?p and action = "''requestAccounts''" and ext = example_env
        and i = "Num 1000" and d = "Obj []" and h = 0 and pl = ?pl and xs = "[Obj []]"
        and w = ?w and arg = Undefined]
      p l c w s
    by (simp add: toString_1000 example_env_page)
qed

section \<open>Routing of the signing methods\<close>

lemma postMessage_isUtf8: "postMessage (ext\<lparr>isUtf8 := f\<rparr>) = postMessage ext"
  by (intro ext) (simp add: postMessage_def)

lemma messageToBuffer_isUtf8: "messageToBuffer (ext\<lparr>isUtf8 := f\<rparr>) = messageToBuffer ext"
  by (intro ext) (simp add: messageToBuffer_def split: jsval.splits)

lemma bufferToHex_value_isUtf8:
  "bufferToHex_value (ext\<lparr>isUtf8 := f\<rparr>) = bufferToHex_value ext"
  by (intro ext) (simp add: bufferToHex_value_def bufferToHex_def split: sum.splits)

lemma handlers_isUtf8:
  "wallet_rpcCall (ext\<lparr>isUtf8 := f\<rparr>) = wallet_rpcCall ext"
  "personal_sign (ext\<lparr>isUtf8 := f\<rparr>) = personal_sign ext"
  "personal_ecRecover (ext\<lparr>isUtf8 := f\<rparr>) = personal_ecRecover ext"
  "eth_signTypedData (ext\<lparr>isUtf8 := f\<rparr>) = eth_signTypedData ext"
  "eth_sendTransaction (ext\<lparr>isUtf8 := f\<rparr>) = eth_sendTransaction ext"
  "eth_requestAccounts (ext\<lparr>isUtf8 := f\<rparr>) = eth_requestAccounts ext"
  "wallet_watchAsset (ext\<lparr>isUtf8 := f\<rparr>) = wallet_watchAsset ext"
  "wallet_addEthereumChain (ext\<lparr>isUtf8 := f\<rparr>) = wallet_addEthereumChain ext"
  "wallet_switchEthereumChain (ext\<lparr>isUtf8 := f\<rparr>) = wallet_switchEthereumChain ext"
  "wallet_getPermissions (ext\<lparr>isUtf8 := f\<rparr>) = wallet_getPermissions ext"
  "wallet_requestPermissions (ext\<lparr>isUtf8 := f\<rparr>) = wallet_requestPermissions ext"
  by (intro ext, simp add: wallet_rpcCall_def personal_sign_def personal_ecRecover_def
      eth_signTypedData_def eth_sendTransaction_def eth_requestAccounts_def
      wallet_watchAsset_def wallet_addEthereumChain_def wallet_switchEthereumChain_def
      wallet_getPermissions_def wallet_requestPermissions_def postMessage_isUtf8
      messageToBuffer_isUtf8 bufferToHex_value_isUtf8 split: sum.splits option.splits)+

lemma dispatch_isUtf8:
  assumes "pmethod pl \<noteq> ''eth_sign''"
  shows "dispatch (ext\<lparr>isUtf8 := f\<rparr>) w pl wr h = dispatch ext w pl wr h"
  using assms unfolding dispatch_def Let_def handlers_isUtf8
  by simp

lemma request_isUtf8:
  assumes "pmethod pl \<noteq> ''eth_sign''"
  shows "request_internal (ext\<lparr>isUtf8 := f\<rparr>) w pl arg = request_internal ext w pl arg"
proof -
  let ?r = "registered (ethereum w) pl (default_true arg)"
  have d: "dispatch (ext\<lparr>isUtf8 := f\<rparr>) (w\<lparr>ethereum := fst ?r\<rparr>) (fst (snd ?r))
        (default_true arg) (snd (snd ?r))
      = dispatch ext (w\<lparr>ethereum := fst ?r\<rparr>) (fst (snd ?r)) (default_true arg) (snd (snd ?r))"
    using assms by (simp add: dispatch_isUtf8 registered_fields)
  show ?thesis
    unfolding request_internal_eq Let_def d by (rule refl)
qed

lemma eth_sign_routes:
  assumes "handleSignParams (address p) (pparams pl) = Inr message"
    and "messageToBuffer ext message = Inr buffer"
  shows "eth_sign ext p pl =
     Inr (postMessage ext p (if isUtf8 ext buffer then ''signPersonalMessage'' else ''signMessage'')
            (pid pl) (Obj [(''data'', Str (''0x'' @ Buffer_toString_hex ext buffer))]))"
  using assms by (simp add: eth_sign_def bufferToHex_def)

lemma personal_sign_routes:
  assumes "handleSignParams (address p) (pparams pl) = Inr message"
    and "messageToBuffer ext message = Inr buffer"
  shows "buffer \<noteq> [] \<Longrightarrow> personal_sign ext p pl =
     Inr (postMessage ext p ''signPersonalMessage'' (pid pl) (Obj [(''data'', message)]))"
    and "buffer = [] \<Longrightarrow> Buffer_from ext message = Inr bytes \<Longrightarrow> personal_sign ext p pl =
     Inr (postMessage ext p ''signPersonalMessage'' (pid pl)
            (Obj [(''data'', Str (''0x'' @ Buffer_toString_hex ext bytes))]))"
  using assms by (simp_all add: personal_sign_def bufferToHex_value_def bufferToHex_def)

lemma dispatch_sign:
  "pmethod pl = ''eth_sign'' \<Longrightarrow>
     dispatch ext w pl wr h = handled w (eth_sign ext (ethereum w) pl)"
  "pmethod pl = ''personal_sign'' \<Longrightarrow>
     dispatch ext w pl wr h = handled w (personal_sign ext (ethereum w) pl)"
  by (simp_all add: dispatch_def)

lemma request_handled:
  assumes d: "dispatch ext (w\<lparr>ethereum := fst (registered (ethereum w) pl (default_true arg))\<rparr>)
        (fst (snd (registered (ethereum w) pl (default_true arg)))) (default_true arg)
        (nextPromise (ethereum w))
      = handled (w\<lparr>ethereum := fst (registered (ethereum w) pl (default_true arg))\<rparr>) (Inr q)"
  shows "request_internal ext w pl arg = (w\<lparr>ethereum := q\<rparr>, nextPromise (ethereum w))"
  unfolding request_internal_eq Let_def
  using d by (simp add: registered_fields handled_def)

lemma request_eth_sign:
  assumes m: "pmethod pl = ''eth_sign''" and r: "ready (ethereum w)"
    and s: "handleSignParams (address (ethereum w)) (pparams pl) = Inr message"
    and b: "messageToBuffer ext message = Inr buffer"
  shows "posted (ethereum (fst (request_internal ext w pl arg))) = posted (ethereum w) @
     [\<lparr>msg_dapp = Some (location_origin ext, iconLink ext),
       msg_name = (if isUtf8 ext buffer then ''signPersonalMessage'' else ''signMessage''),
       msg_payload = Obj [(''data'', Str (''0x'' @ Buffer_toString_hex ext buffer))],
       msg_id = Str (js_toString (internal_id (ethereum w)))\<rparr>]"
proof -
  let ?r = "registered (ethereum w) pl (default_true arg)"
  let ?a = "if isUtf8 ext buffer then ''signPersonalMessage'' else ''signMessage''"
  let ?d = "Obj [(''data'', Str (''0x'' @ Buffer_toString_hex ext buffer))]"
  have "eth_sign ext (fst ?r) (fst (snd ?r))
      = Inr (postMessage ext (fst ?r) ?a (internal_id (ethereum w)) ?d)"
    using eth_sign_routes[of "fst ?r" "fst (snd ?r)" message ext buffer] s b
    by (simp add: registered_fields)
  then have "request_internal ext w pl arg
      = (w\<lparr>ethereum := postMessage ext (fst ?r) ?a (internal_id (ethereum w)) ?d\<rparr>,
         nextPromise (ethereum w))"
    using m by (intro request_handled) (simp add: dispatch_sign registered_fields)
  then show ?thesis
    using r by (simp add: postMessage_open registered_fields)
qed

lemma request_personal_sign:
  assumes m: "pmethod pl = ''personal_sign''" and r: "ready (ethereum w)"
    and s: "handleSignParams (address (ethereum w)) (pparams pl) = Inr message"
    and b: "messageToBuffer ext message = Inr buffer"
    and n: "buffer \<noteq> [] \<or> Buffer_from ext message = Inr bytes"
  shows "posted (ethereum (fst (request_internal ext w pl arg))) = posted (ethereum w) @
     [\<lparr>msg_dapp = Some (location_origin ext, iconLink ext),
       msg_name = ''signPersonalMessage'',
       msg_payload = Obj [(''data'', if buffer = []
                                     then Str (''0x'' @ Buffer_toString_hex ext bytes)
                                     else message)],
       msg_id = Str (js_toString (internal_id (ethereum w)))\<rparr>]"
proof -
  let ?r = "registered (ethereum w) pl (default_true arg)"
  let ?d = "Obj [(''data'', if buffer = [] then Str (''0x'' @ Buffer_toString_hex ext bytes)
                            else message)]"
  have "personal_sign ext (fst ?r) (fst (snd ?r))
      = Inr (postMessage ext (fst ?r) ''signPersonalMessage'' (internal_id (ethereum w)) ?d)"
    using personal_sign_routes(1)[of "fst ?r" "fst (snd ?r)" message ext buffer]
      personal_sign_routes(2)[of "fst ?r" "fst (snd ?r)" message ext buffer bytes] s b n
    by (cases "buffer = []") (simp_all add: registered_fields)
  then have "request_internal ext w pl arg
      = (w\<lparr>ethereum := postMessage ext (fst ?r) ''signPersonalMessage''
            (internal_id (ethereum w)) ?d\<rparr>, nextPromise (ethereum w))"
    using m by (intro request_handled) (simp add: dispatch_sign registered_fields)
  then show ?thesis
    using r by (simp add: postMessage_open registered_fields)
qed

text \<open>
  \<^bold>\<open>C7\<close>. \<open>eth_sign\<close> posts the action \<open>signPersonalMessage\<close> when the decoded
  message buffer is valid UTF-8 and \<open>signMessage\<close> otherwise, in both cases with the
  hex encoding of the buffer as data. \<open>personal_sign\<close> always posts
  \<open>signPersonalMessage\<close>, with the message as it is, unless the decoded buffer is
  empty: then the data is the hex encoding of the message string. Only \<open>eth_sign\<close>
  consults the UTF-8 test: for every other method \<open>_request\<close> does the same whatever
  the test answers. On a ready provider the message reaches the host.
\<close>

theorem signing_routes:
  "(handleSignParams (address p) (pparams pl) = Inr message
      \<and> messageToBuffer ext message = Inr buffer \<longrightarrow>
      eth_sign ext p pl =
        Inr (postMessage ext p
               (if isUtf8 ext buffer then ''signPersonalMessage'' else ''signMessage'')
               (pid pl) (Obj [(''data'', Str (''0x'' @ Buffer_toString_hex ext buffer))]))
      \<and> (buffer \<noteq> [] \<longrightarrow>
            personal_sign ext p pl =
              Inr (postMessage ext p ''signPersonalMessage'' (pid pl)
                     (Obj [(''data'', message)])))
      \<and> (buffer = [] \<and> Buffer_from ext message = Inr bytes \<longrightarrow>
            personal_sign ext p pl =
              Inr (postMessage ext p ''signPersonalMessage'' (pid pl)
                     (Obj [(''data'', Str (''0x'' @ Buffer_toString_hex ext bytes))]))))
   \<and> (pmethod pl \<noteq> ''eth_sign'' \<longrightarrow>
        request_internal (ext\<lparr>isUtf8 := f\<rparr>) w pl arg = request_internal ext w pl arg)
   \<and> (pmethod pl = ''eth_sign'' \<and> ready (ethereum w)
        \<and> handleSignParams (address (ethereum w)) (pparams pl) = Inr message
        \<and> messageToBuffer ext message = Inr buffer \<longrightarrow>
        posted (ethereum (fst (request_internal ext w pl arg))) = posted (ethereum w) @
          [\<lparr>msg_dapp = Some (location_origin ext, iconLink ext),
            msg_name = (if isUtf8 ext buffer then ''signPersonalMessage'' else ''signMessage''),
            msg_payload = Obj [(''data'', Str (''0x'' @ Buffer_toString_hex ext buffer))],
            msg_id = Str (js_toString (internal_id (ethereum w)))\<rparr>])
   \<and> (pmethod pl = ''personal_sign'' \<and> ready (ethereum w)
        \<and> handleSignParams (address (ethereum w)) (pparams pl) = Inr message
        \<and> messageToBuffer ext message = Inr buffer
        \<and> (buffer \<noteq> [] \<or> Buffer_from ext message = Inr bytes) \<longrightarrow>
        posted (ethereum (fst (request_internal ext w pl arg))) = posted (ethereum w) @
          [\<lparr>msg_dapp = Some (location_origin ext, iconLink ext),
            msg_name = ''signPersonalMessage'',
            msg_payload = Obj [(''data'', if buffer = []
                                          then Str (''0x'' @ Buffer_toString_hex ext bytes)
                                          else message)],
            msg_id = Str (js_toString (internal_id (ethereum w)))\<rparr>])"
proof (intro conjI impI)
  assume a: "handleSignParams (address p) (pparams pl) = Inr message
      \<and> messageToBuffer ext message = Inr buffer"
  show "eth_sign ext p pl =
      Inr (postMessage ext p
             (if isUtf8 ext buffer then ''signPersonalMessage'' else ''signMessage'')
             (pid pl) (Obj [(''data'', Str (''0x'' @ Buffer_toString_hex ext buffer))]))"
    using a eth_sign_routes[of p pl message ext buffer] by simp
  show "personal_sign ext p pl =
      Inr (postMessage ext p ''signPersonalMessage'' (pid pl) (Obj [(''data'', message)]))"
    if "buffer \<noteq> []"
    using a that personal_sign_routes(1)[of p pl message ext buffer] by simp
  show "personal_sign ext p pl =
      Inr (postMessage ext p ''signPersonalMessage'' (pid pl)
             (Obj [(''data'', Str (''0x'' @ Buffer_toString_hex ext bytes))]))"
    if "buffer = [] \<and> Buffer_from ext message = Inr bytes"
    using a that personal_sign_routes(2)[of p pl message ext buffer bytes] by simp
next
  assume "pmethod pl \<noteq> ''eth_sign''"
  then show "request_internal (ext\<lparr>isUtf8 := f\<rparr>) w pl arg = request_internal ext w pl arg"
    by (rule request_isUtf8)
next
  assume "pmethod pl = ''eth_sign'' \<and> ready (ethereum w)
      \<and> handleSignParams (address (ethereum w)) (pparams pl) = Inr message
      \<and> messageToBuffer ext message = Inr buffer"
  then show "posted (ethereum (fst (request_internal ext w pl arg))) = posted (ethereum w) @
      [\<lparr>msg_dapp = Some (location_origin ext, iconLink ext),
        msg_name = (if isUtf8 ext buffer then ''signPersonalMessage'' else ''signMessage''),
        msg_payload = Obj [(''data'', Str (''0x'' @ Buffer_toString_hex ext buffer))],
        msg_id = Str (js_toString (internal_id (ethereum w)))\<rparr>]"
    using request_eth_sign[of pl w message ext buffer arg] by simp
next
  assume "pmethod pl = ''personal_sign'' \<and> ready (ethereum w)
      \<and> handleSignParams (address (ethereum w)) (pparams pl) = Inr message
      \<and> messageToBuffer ext message = Inr buffer
      \<and> (buffer \<noteq> [] \<or> Buffer_from ext message = Inr bytes)"
  then show "posted (ethereum (fst (request_internal ext w pl arg))) = posted (ethereum w) @
      [\<lparr>msg_dapp = Some (location_origin ext, iconLink ext),
        msg_name = ''signPersonalMessage'',
        msg_payload = Obj [(''data'', if buffer = []
                                      then Str (''0x'' @ Buffer_toString_hex ext bytes)
                                      else message)],
        msg_id = Str (js_toString (internal_id (ethereum w)))\<rparr>]"
    using request_personal_sign[of pl w message ext buffer bytes arg] by simp
qed

lemma example_bytes:
  "hex_decode ''deadbeef'' \<noteq> []"
  "valid_utf8 (map of_char (hex_decode ''deadbeef'')) = False"
  "hex_encode (hex_decode ''deadbeef'') = ''deadbeef''"
  "valid_utf8 (map of_char (hex_decode ''68656c6c6f'')) = True"
  "hex_encode (hex_decode ''68656c6c6f'') = ''68656c6c6f''"
  "hex_encode ''0x'' = ''3078''"
  "toLowerCase ''0xabc'' = ''0xabc''"
  "toLowerCase ''0xdeadbeef'' = ''0xdeadbeef''"
  by code_simp+

lemma example_env_buffers:
  "messageToBuffer example_env (Str (''0x'' @ s)) = Inr (hex_decode s)"
  "Buffer_from example_env (Str s) = Inr s"
  "Buffer_toString_hex example_env = hex_encode"
  "isUtf8 example_env b = valid_utf8 (map of_char b)"
  by (simp_all add: messageToBuffer_def example_env_def)

theorem signing_routes_witness:
  "posted (ethereum (fst (request_internal example_env (example_page (Str ''0xAbC'') (Num 1))
       (call (Num 1) ''eth_sign'' (Some [Str ''0xabc'', Str ''0xdeadbeef''])) Undefined)))
     = [\<lparr>msg_dapp = Some (''https://dapp.example'', ''https://dapp.example/favicon.ico''),
         msg_name = ''signMessage'', msg_payload = Obj [(''data'', Str ''0xdeadbeef'')],
         msg_id = Str ''1000''\<rparr>]
   \<and> posted (ethereum (fst (request_internal example_env (example_page (Str ''0xAbC'') (Num 1))
       (call (Num 1) ''eth_sign'' (Some [Str ''0xabc'', Str ''0x68656c6c6f''])) Undefined)))
     = [\<lparr>msg_dapp = Some (''https://dapp.example'', ''https://dapp.example/favicon.ico''),
         msg_name = ''signPersonalMessage'',
         msg_payload = Obj [(''data'', Str ''0x68656c6c6f'')], msg_id = Str ''1000''\<rparr>]
   \<and> posted (ethereum (fst (request_internal example_env (example_page (Str ''0xAbC'') (Num 1))
       (call (Num 1) ''personal_sign'' (Some [Str ''0xdeadbeef'', Str ''0xabc''])) Undefined)))
     = [\<lparr>msg_dapp = Some (''https://dapp.example'', ''https://dapp.example/favicon.ico''),
         msg_name = ''signPersonalMessage'',
         msg_payload = Obj [(''data'', Str ''0xdeadbeef'')], msg_id = Str ''1000''\<rparr>]
   \<and> posted (ethereum (fst (request_internal example_env (example_page (Str ''0xAbC'') (Num 1))
       (call (Num 1) ''personal_sign'' (Some [Str ''0x''])) Undefined)))
     = [\<lparr>msg_dapp = Some (''https://dapp.example'', ''https://dapp.example/favicon.ico''),
         msg_name = ''signPersonalMessage'',
         msg_payload = Obj [(''data'', Str ''0x3078'')], msg_id = Str ''1000''\<rparr>]
   \<and> request_internal (example_env\<lparr>isUtf8 := (\<lambda>b. True)\<rparr>)
        (example_page (Str ''0xAbC'') (Num 1))
        (call (Num 1) ''personal_sign'' (Some [Str ''0xdeadbeef'', Str ''0xabc''])) Undefined
     = request_internal example_env (example_page (Str ''0xAbC'') (Num 1))
        (call (Num 1) ''personal_sign'' (Some [Str ''0xdeadbeef'', Str ''0xabc''])) Undefined"
proof -
  let ?w = "example_page (Str ''0xAbC'') (Num 1)"
  have w: "ready (ethereum ?w)" "address (ethereum ?w) = ''0xabc''" "posted (ethereum ?w) = []"
    "internal_id (ethereum ?w) = Num 1000"
    by (simp_all add: example_page_ready example_internal_id) (simp_all add: blank_def)
  have h: "handleSignParams ''0xabc'' (Some [Str ''0xabc'', Str ''0xdeadbeef'']) = Inr (Str ''0xdeadbeef'')"
    "handleSignParams ''0xabc'' (Some [Str ''0xabc'', Str ''0x68656c6c6f'']) = Inr (Str ''0x68656c6c6f'')"
    "handleSignParams ''0xabc'' (Some [Str ''0xdeadbeef'', Str ''0xabc'']) = Inr (Str ''0xdeadbeef'')"
    "handleSignParams ''0xabc'' (Some [Str ''0x'']) = Inr (Str ''0x'')"
    by (simp_all add: handleSignParams_def example_bytes)
  have b: "messageToBuffer example_env (Str ''0xdeadbeef'') = Inr (hex_decode ''deadbeef'')"
    "messageToBuffer example_env (Str ''0x68656c6c6f'') = Inr (hex_decode ''68656c6c6f'')"
    "messageToBuffer example_env (Str ''0x'') = Inr []"
    using example_env_buffers(1)[of "''deadbeef''"] example_env_buffers(1)[of "''68656c6c6f''"]
      example_env_buffers(1)[of "[]"] by simp_all
  have c1: "posted (ethereum (fst (request_internal example_env ?w
       (call (Num 1) ''eth_sign'' (Some [Str ''0xabc'', Str ''0xdeadbeef''])) Undefined)))
     = [\<lparr>msg_dapp = Some (''https://dapp.example'', ''https://dapp.example/favicon.ico''),
         msg_name = ''signMessage'', msg_payload = Obj [(''data'', Str ''0xdeadbeef'')],
         msg_id = Str ''1000''\<rparr>]"
    using signing_routes[where pl = "call (Num 1) ''eth_sign'' (Some [Str ''0xabc'', Str ''0xdeadbeef''])"
        and w = ?w and ext = example_env and message = "Str ''0xdeadbeef''"
        and buffer = "hex_decode ''deadbeef''" and arg = Undefined and p = "ethereum ?w"
        and bytes = "[]" and f = "\<lambda>b. True"]
    by (simp add: w h b call_def example_bytes example_env_buffers(2,3,4) example_env_page
        toString_1000 del: hex_decode.simps)
  have c2: "posted (ethereum (fst (request_internal example_env ?w
       (call (Num 1) ''eth_sign'' (Some [Str ''0xabc'', Str ''0x68656c6c6f''])) Undefined)))
     = [\<lparr>msg_dapp = Some (''https://dapp.example'', ''https://dapp.example/favicon.ico''),
         msg_name = ''signPersonalMessage'',
         msg_payload = Obj [(''data'', Str ''0x68656c6c6f'')], msg_id = Str ''1000''\<rparr>]"
    using signing_routes[where pl = "call (Num 1) ''eth_sign'' (Some [Str ''0xabc'', Str ''0x68656c6c6f''])"
        and w = ?w and ext = example_env and message = "Str ''0x68656c6c6f''"
        and buffer = "hex_decode ''68656c6c6f''" and arg = Undefined and p = "ethereum ?w"
        and bytes = "[]" and f = "\<lambda>b. True"]
    by (simp add: w h b call_def example_bytes example_env_buffers(2,3,4) example_env_page
        toString_1000 del: hex_decode.simps)
  have c3: "posted (ethereum (fst (request_internal example_env ?w
       (call (Num 1) ''personal_sign'' (Some [Str ''0xdeadbeef'', Str ''0xabc''])) Undefined)))
     = [\<lparr>msg_dapp = Some (''https://dapp.example'', ''https://dapp.example/favicon.ico''),
         msg_name = ''signPersonalMessage'',
         msg_payload = Obj [(''data'', Str ''0xdeadbeef'')], msg_id = Str ''1000''\<rparr>]"
    and c5: "request_internal (example_env\<lparr>isUtf8 := (\<lambda>b. True)\<rparr>) ?w
        (call (Num 1) ''personal_sign'' (Some [Str ''0xdeadbeef'', Str ''0xabc''])) Undefined
     = request_internal example_env ?w
        (call (Num 1) ''personal_sign'' (Some [Str ''0xdeadbeef'', Str ''0xabc''])) Undefined"
    using signing_routes[where pl = "call (Num 1) ''personal_sign'' (Some [Str ''0xdeadbeef'', Str ''0xabc''])"
        and w = ?w and ext = example_env and message = "Str ''0xdeadbeef''"
        and buffer = "hex_decode ''deadbeef''" and arg = Undefined and f = "\<lambda>b. True"
        and p = "ethereum ?w" and bytes = "[]"]
    by (simp_all add: w h b call_def example_bytes example_env_buffers(2,3,4) example_env_page
        toString_1000 del: hex_decode.simps)
  have c4: "posted (ethereum (fst (request_internal example_env ?w
       (call (Num 1) ''personal_sign'' (Some [Str ''0x''])) Undefined)))
     = [\<lparr>msg_dapp = Some (''https://dapp.example'', ''https://dapp.example/favicon.ico''),
         msg_name = ''signPersonalMessage'',
         msg_payload = Obj [(''data'', Str ''0x3078'')], msg_id = Str ''1000''\<rparr>]"
    using signing_routes[where pl = "call (Num 1) ''personal_sign'' (Some [Str ''0x''])"
        and w = ?w and ext = example_env and message = "Str ''0x''"
        and buffer = "[]" and bytes = "''0x''" and arg = Undefined
        and p = "ethereum ?w" and f = "\<lambda>b. True"]
    by (simp add: w h b call_def example_bytes example_env_buffers(2,3,4) example_env_page
        toString_1000 del: hex_decode.simps)
  show ?thesis
    using c1 c2 c3 c4 c5 by simp
qed

section \<open>The response sink\<close>

lemma dispatch_requestAccounts:
  "pmethod pl = ''eth_requestAccounts'' \<Longrightarrow>
     dispatch ext w pl wr h = handled w (eth_requestAccounts ext (ethereum w) pl)"
  by (simp add: dispatch_def)

lemma request_requestAccounts:
  assumes m: "pmethod pl = ''eth_requestAccounts''"
  shows "request_internal ext w pl arg =
     (w\<lparr>ethereum := (fst (registered (ethereum w) pl (default_true arg)))
          \<lparr>posted := posted (ethereum w) @
             [\<lparr>msg_dapp = Some (location_origin ext, iconLink ext),
               msg_name = ''requestAccounts'', msg_payload = Obj [],
               msg_id = Str (js_toString (internal_id (ethereum w)))\<rparr>]\<rparr>\<rparr>,
      nextPromise (ethereum w))"
proof -
  let ?r = "registered (ethereum w) pl (default_true arg)"
  have "eth_requestAccounts ext (fst ?r) (fst (snd ?r))
      = Inr ((fst ?r)\<lparr>posted := posted (ethereum w) @
             [\<lparr>msg_dapp = Some (location_origin ext, iconLink ext),
               msg_name = ''requestAccounts'', msg_payload = Obj [],
               msg_id = Str (js_toString (internal_id (ethereum w)))\<rparr>]\<rparr>)"
    by (simp add: eth_requestAccounts_def postMessage_open allow_list_def registered_fields)
  then show ?thesis
    using m by (intro request_handled) (simp add: dispatch_requestAccounts registered_fields)
qed

lemma sendResponse_resolves:
  assumes c: "callbacks (ethereum w) i = Some h" and u: "promises (ethereum w) h = None"
  shows "promises (ethereum (sendResponse w i result)) h =
      Some (Resolved (shaped (case wrapResults (ethereum w) i of None \<Rightarrow> Undefined | Some b \<Rightarrow> b)
                        (origin_of (ethereum w) i) result))"
    and "callbacks (ethereum (sendResponse w i result)) i = None"
  using u by (simp_all add: sendResponse_found[OF c] sendResponse_own_found[OF c])

text \<open>What \<open>sendResponse\<close> passes to the callback it finds, written out: the reply
  \<open>{jsonrpc: "2.0", id, result}\<close> if the call expects the envelope, the raw result
  if it does not; line 423 takes the inner \<open>result\<close> of a raw result that is an
  object (not \<open>null\<close>) whose \<open>jsonrpc\<close> and \<open>result\<close> fields are both truthy. The
  callback is then removed.\<close>

lemma sendResponse_shapes:
  "callbacks (ethereum w) i = Some h \<and> promises (ethereum w) h = None \<longrightarrow>
     promises (ethereum (sendResponse w i result)) h =
       Some (Resolved
         (if truthy (case wrapResults (ethereum w) i of None \<Rightarrow> Undefined | Some b \<Rightarrow> b)
          then Obj [(''jsonrpc'', Str ''2.0''),
                    (''id'', case idMapping (ethereum w) i of
                               None \<Rightarrow> i
                             | Some e \<Rightarrow> if truthy e then e else i),
                    (''result'',
                       if typeof_object result \<and> result \<noteq> Null
                          \<and> truthy (getprop result ''jsonrpc'')
                          \<and> truthy (getprop result ''result'')
                       then getprop result ''result'' else result)]
          else result))
     \<and> callbacks (ethereum (sendResponse w i result)) i = None"
proof (intro impI)
  assume a: "callbacks (ethereum w) i = Some h \<and> promises (ethereum w) h = None"
  have t: "typeof_object result \<Longrightarrow> result \<noteq> Undefined"
    by (cases result) simp_all
  show "promises (ethereum (sendResponse w i result)) h =
       Some (Resolved
         (if truthy (case wrapResults (ethereum w) i of None \<Rightarrow> Undefined | Some b \<Rightarrow> b)
          then Obj [(''jsonrpc'', Str ''2.0''),
                    (''id'', case idMapping (ethereum w) i of
                               None \<Rightarrow> i
                             | Some e \<Rightarrow> if truthy e then e else i),
                    (''result'',
                       if typeof_object result \<and> result \<noteq> Null
                          \<and> truthy (getprop result ''jsonrpc'')
                          \<and> truthy (getprop result ''result'')
                       then getprop result ''result'' else result)]
          else result))
     \<and> callbacks (ethereum (sendResponse w i result)) i = None"
    using a sendResponse_resolves[of w i h result] t
    by (auto simp: shaped_def reply_def unwrapResult_def origin_of_def)
qed

lemma example_pending:
  "request_internal example_env (example_page Undefined (Num 1))
     (call (Num 7) ''eth_requestAccounts'' None) Undefined
   = (\<lparr>ethereum = (fst (registered (ethereum (example_page Undefined (Num 1)))
                          (call (Num 7) ''eth_requestAccounts'' None) (Bool True)))
          \<lparr>posted := [\<lparr>msg_dapp = Some (''https://dapp.example'',
                                          ''https://dapp.example/favicon.ico''),
                        msg_name = ''requestAccounts'', msg_payload = Obj [],
                        msg_id = Str ''1000''\<rparr>]\<rparr>,
       frames = []\<rparr>, 0)"
proof -
  let ?w = "example_page Undefined (Num 1)"
  have w: "posted (ethereum ?w) = []" "internal_id (ethereum ?w) = Num 1000"
    "nextPromise (ethereum ?w) = 0" "frames ?w = []"
    by (simp_all add: example_page_not_ready example_internal_id) (simp_all add: blank_def)
  have "pmethod (call (Num 7) ''eth_requestAccounts'' None) = ''eth_requestAccounts''"
    by (simp add: call_def)
  from request_requestAccounts[OF this, of example_env ?w Undefined] show ?thesis
    using w
    by (simp add: default_true_def example_env_page toString_1000)
qed

lemma example_pending_fields:
  "callbacks (fst (registered (ethereum (example_page Undefined (Num 1)))
       (call (Num 7) ''eth_requestAccounts'' None) wr)) (Num 1000) = Some 0"
  "promises (fst (registered (ethereum (example_page Undefined (Num 1)))
       (call (Num 7) ''eth_requestAccounts'' None) wr)) 0 = None"
  "wrapResults (fst (registered (ethereum (example_page Undefined (Num 1)))
       (call (Num 7) ''eth_requestAccounts'' None) wr)) (Num 1000) = Some wr"
  "idMapping (fst (registered (ethereum (example_page Undefined (Num 1)))
       (call (Num 7) ''eth_requestAccounts'' None) wr)) (Num 1000) = Some (Num 7)"
  by (simp_all add: registered_eq example_page_not_ready example_internal_id example_next_id)
    (simp_all add: blank_def call_def)

text \<open>
  \<^bold>\<open>C6\<close>. On the provider of the configuration \<open>{chainId: 1}\<close> the call
  \<open>sendAsync({id: 7, method: "eth_requestAccounts"})\<close> is pending under the internal
  id 1000 and expects the envelope. Answered with
  \<open>{jsonrpc: "2.0", result: ["0xabc"]}\<close>, its caller receives
  \<open>{jsonrpc: "2.0", id: 7, result: ["0xabc"]}\<close>: the raw result carries a version
  marker and a result field, and its inner result is placed in the reply. Answered
  with \<open>{jsonrpc: "2.0", result: false}\<close>, its caller receives
  \<open>{jsonrpc: "2.0", id: 7, result: {jsonrpc: "2.0", result: false}}\<close>: line 423 tests
  \<open>result.result\<close> for truthiness, so a raw result whose result field is falsy is
  not unwrapped.
\<close>

theorem falsy_result_not_unwrapped:
  "promises (ethereum (sendResponse
       (fst (request_internal example_env (example_page Undefined (Num 1))
               (call (Num 7) ''eth_requestAccounts'' None) Undefined))
       (Num 1000) (Obj [(''jsonrpc'', Str ''2.0''), (''result'', Arr [Str ''0xabc''])]))) 0
     = Some (Resolved (Obj [(''jsonrpc'', Str ''2.0''), (''id'', Num 7),
                            (''result'', Arr [Str ''0xabc''])]))
   \<and> promises (ethereum (sendResponse
       (fst (request_internal example_env (example_page Undefined (Num 1))
               (call (Num 7) ''eth_requestAccounts'' None) Undefined))
       (Num 1000) (Obj [(''jsonrpc'', Str ''2.0''), (''result'', Bool False)]))) 0
     = Some (Resolved (Obj [(''jsonrpc'', Str ''2.0''), (''id'', Num 7),
          (''result'', Obj [(''jsonrpc'', Str ''2.0''), (''result'', Bool False)])]))"
  using sendResponse_resolves(1)[where w = "fst (request_internal example_env
          (example_page Undefined (Num 1)) (call (Num 7) ''eth_requestAccounts'' None) Undefined)"
      and i = "Num 1000" and h = 0
      and result = "Obj [(''jsonrpc'', Str ''2.0''), (''result'', Arr [Str ''0xabc''])]"]
    sendResponse_resolves(1)[where w = "fst (request_internal example_env
          (example_page Undefined (Num 1)) (call (Num 7) ''eth_requestAccounts'' None) Undefined)"
      and i = "Num 1000" and h = 0
      and result = "Obj [(''jsonrpc'', Str ''2.0''), (''result'', Bool False)]"]
  by (simp add: example_pending example_pending_fields shaped_def reply_def unwrapResult_def
      origin_of_def)

section \<open>Settling an id that is not registered\<close>

lemma sendResponse_unregistered:
  assumes "callbacks (ethereum w) i = None"
  shows "callbacks (ethereum (sendResponse w i result)) = callbacks (ethereum w)"
    and "wrapResults (ethereum (sendResponse w i result)) = wrapResults (ethereum w)"
    and "promises (ethereum (sendResponse w i result)) = promises (ethereum w)"
    and "posted (ethereum (sendResponse w i result)) = posted (ethereum w)"
  by (simp_all add: sendResponse_missing[OF assms])

lemma sendError_unregistered:
  assumes "callbacks p i = None"
  shows "sendError p i err = p"
  using assms by (simp add: sendError_eq)

lemma sendResponse_twice:
  assumes "callbacks (ethereum w) i = Some h"
  shows "callbacks (ethereum (sendResponse (sendResponse w i r1) i r2))
           = callbacks (ethereum (sendResponse w i r1))"
    and "wrapResults (ethereum (sendResponse (sendResponse w i r1) i r2))
           = wrapResults (ethereum (sendResponse w i r1))"
    and "promises (ethereum (sendResponse (sendResponse w i r1) i r2))
           = promises (ethereum (sendResponse w i r1))"
proof -
  have "callbacks (ethereum (sendResponse w i r1)) i = None"
    by (simp add: sendResponse_found[OF assms] sendResponse_own_found[OF assms])
  then show "callbacks (ethereum (sendResponse (sendResponse w i r1) i r2))
           = callbacks (ethereum (sendResponse w i r1))"
    and "wrapResults (ethereum (sendResponse (sendResponse w i r1) i r2))
           = wrapResults (ethereum (sendResponse w i r1))"
    and "promises (ethereum (sendResponse (sendResponse w i r1) i r2))
           = promises (ethereum (sendResponse w i r1))"
    by (simp_all add: sendResponse_unregistered)
qed

text \<open>
  \<^bold>\<open>C2\<close>. In part_000, \<open>sendResponse(id, null)\<close> throws: line 309 reads
  \<open>result.jsonrpc\<close> of \<open>null\<close>, whatever the id is and whether or not it is
  registered. (In index.js the guard \<open>result != null\<close> of line 423 precedes the read,
  and settling an id that is not registered changes neither the registry nor any
  promise: \<open>sendResponse_unregistered\<close>, \<open>sendError_unregistered\<close>,
  \<open>sendResponse_twice\<close>.)
\<close>

theorem sendResponse_part0_null_throws:
  "snd (sendResponse_part0 w i Null)
     = Some (TypeError ''Cannot read properties of null (reading jsonrpc)'')"
  by (simp add: sendResponse_part0_def sendResponse_own_part0_def Let_def split_beta)

section \<open>Unsupported methods\<close>

lemma dispatch_unsupported:
  assumes "pmethod pl \<in> set unsupported"
  shows "dispatch ext w pl wr h =
     (w, Some (ProviderRpcError 4200 (''MathWallet does not support calling '' @ pmethod pl
                 @ ''. Please use your own solution'')))"
  using assms by (auto simp: dispatch_def unsupported_def)

lemma request_unsupported:
  assumes m: "pmethod pl \<in> set unsupported"
  shows "request_internal ext w pl arg =
     (w\<lparr>ethereum := settle (nextPromise (ethereum w))
          (Rejected (ProviderRpcError 4200 (''MathWallet does not support calling ''
             @ pmethod pl @ ''. Please use your own solution'')))
          (fst (registered (ethereum w) pl (default_true arg)))\<rparr>,
      nextPromise (ethereum w))"
  unfolding request_internal_eq Let_def
  using m by (simp add: dispatch_unsupported registered_fields)

lemma unsupported_rejected:
  assumes m: "pmethod pl \<in> set unsupported"
  shows "promises (ethereum (fst (request_internal ext w pl arg))) (nextPromise (ethereum w))
      = Some (Rejected (ProviderRpcError 4200 (''MathWallet does not support calling ''
                @ pmethod pl @ ''. Please use your own solution'')))"
    and "posted (ethereum (fst (request_internal ext w pl arg))) = posted (ethereum w)"
    and "rpcCalls (ethereum (fst (request_internal ext w pl arg))) = rpcCalls (ethereum w)"
    and "callbacks (ethereum (fst (request_internal ext w pl arg))) (internal_id (ethereum w))
      = Some (nextPromise (ethereum w))"
    and "wrapResults (ethereum (fst (request_internal ext w pl arg))) (internal_id (ethereum w))
      = Some (default_true arg)"
  using registered_fields(5,6,7)[of "ethereum w" pl "default_true arg"]
  by (simp_all add: request_unsupported[OF m] settle_eq registered_fields)

text \<open>
  \<^bold>\<open>C4\<close>. \<open>request({method: "eth_subscribe"})\<close> on the provider of the configuration
  \<open>{chainId: 1}\<close>: the promise is rejected with \<open>ProviderRpcError(4200, ...)\<close>, nothing
  is posted and no upstream call is made, and after the rejection the registry still
  holds the callback and the \<open>wrapResult\<close> flag of the call under its id.
\<close>

theorem unsupported_leaves_entry:
  "promises (ethereum (fst (request example_env (example_page Undefined (Num 1))
        (call Undefined ''eth_subscribe'' None)))) 0
     = Some (Rejected (ProviderRpcError 4200
         ''MathWallet does not support calling eth_subscribe. Please use your own solution''))
   \<and> posted (ethereum (fst (request example_env (example_page Undefined (Num 1))
        (call Undefined ''eth_subscribe'' None)))) = []
   \<and> rpcCalls (ethereum (fst (request example_env (example_page Undefined (Num 1))
        (call Undefined ''eth_subscribe'' None)))) = []
   \<and> callbacks (ethereum (fst (request example_env (example_page Undefined (Num 1))
        (call Undefined ''eth_subscribe'' None)))) (Num 1000) = Some 0
   \<and> wrapResults (ethereum (fst (request example_env (example_page Undefined (Num 1))
        (call Undefined ''eth_subscribe'' None)))) (Num 1000) = Some (Bool False)"
proof -
  let ?w = "example_page Undefined (Num 1)"
  have w: "posted (ethereum ?w) = []" "internal_id (ethereum ?w) = Num 1000"
    "nextPromise (ethereum ?w) = 0" "rpcCalls (ethereum ?w) = []"
    by (simp_all add: example_page_not_ready example_internal_id) (simp_all add: blank_def)
  have m: "pmethod (call Undefined ''eth_subscribe'' None) \<in> set unsupported"
    by (simp add: call_def unsupported_def)
  show ?thesis
    using unsupported_rejected[OF m, of example_env ?w "Bool False"] w
    by (simp add: request_def default_true_def call_def)
qed

section \<open>The result shape of the entry points\<close>

lemma sendAsync_single:
  "sendAsync ext w (Single pl) =
     (fst (request_internal ext w pl Undefined), [snd (request_internal ext w pl Undefined)])"
  by (simp add: sendAsync_def split_beta)

lemma sendAsync_batch_first:
  "sendAsync ext w (Batch [pl]) =
     (fst (request_internal ext w pl (Num 0)), [snd (request_internal ext w pl (Num 0))])"
  by (simp add: sendAsync_def split_beta)

lemma local_bare:
  assumes m: "pmethod pl \<in> set local_methods" and f: "\<not> truthy (default_true arg)"
  shows "promises (ethereum (fst (request_internal ext w pl arg))) (nextPromise (ethereum w))
     = Some (Resolved (claimed_local_answer (session (ethereum w)) (pmethod pl)))"
    and "snd (request_internal ext w pl arg) = nextPromise (ethereum w)"
  using f by (simp_all add: request_local_methods[OF m refl] local_outcome shaped_def)

text \<open>
  \<^bold>\<open>C10\<close>. \<open>sendAsync([{id: 1, method: "eth_chainId"}], callback)\<close> on the provider of
  the configuration \<open>{chainId: 1}\<close>: the promise of the first element of the batch is
  resolved with the bare value \<open>"0x1"\<close>, not with the envelope, because \<open>map\<close> passes
  the index 0 as \<open>wrapResult\<close>. The same payload sent alone receives the envelope.
\<close>

theorem sendAsync_batch_first_is_bare:
  "snd (sendAsync example_env (example_page Undefined (Num 1))
          (Batch [call (Num 1) ''eth_chainId'' None])) = [0]
   \<and> promises (ethereum (fst (sendAsync example_env (example_page Undefined (Num 1))
          (Batch [call (Num 1) ''eth_chainId'' None])))) 0
       = Some (Resolved (Str ''0x1''))
   \<and> snd (sendAsync example_env (example_page Undefined (Num 1))
          (Single (call (Num 1) ''eth_chainId'' None))) = [0]
   \<and> promises (ethereum (fst (sendAsync example_env (example_page Undefined (Num 1))
          (Single (call (Num 1) ''eth_chainId'' None))))) 0
       = Some (Resolved (Obj [(''jsonrpc'', Str ''2.0''), (''id'', Num 1),
                              (''result'', Str ''0x1'')]))"
proof -
  let ?w = "example_page Undefined (Num 1)"
  let ?pl = "call (Num 1) ''eth_chainId'' None"
  have w: "nextPromise (ethereum ?w) = 0" "internal_id (ethereum ?w) = Num 1000"
    "session (ethereum ?w) = ([], False, Str ''0x1'', ''1'')"
    by (simp_all add: example_page_not_ready example_internal_id)
      (simp_all add: blank_def session_def)
  have m: "pmethod ?pl \<in> set local_methods"
    by (simp add: call_def local_methods_def)
  have v: "claimed_local_answer ([], False, Str ''0x1'', ''1'') (pmethod ?pl) = Str ''0x1''"
    by (simp add: claimed_local_answer_def call_def)
  have o: "origin_of (fst (registered (ethereum ?w) ?pl (Bool True))) (Num 1000) = Num 1"
    by (simp add: registered_eq origin_of_def example_page_not_ready example_internal_id
        example_next_id)
      (simp add: blank_def call_def)
  have b: "promises (ethereum (fst (request_internal example_env ?w ?pl (Num 0)))) 0
      = Some (Resolved (Str ''0x1''))" "snd (request_internal example_env ?w ?pl (Num 0)) = 0"
    using local_bare[OF m, of "Num 0" example_env ?w] w v
    by (simp_all add: default_true_def)
  have s: "promises (ethereum (fst (request_internal example_env ?w ?pl Undefined))) 0
      = Some (Resolved (Obj [(''jsonrpc'', Str ''2.0''), (''id'', Num 1),
                             (''result'', Str ''0x1'')]))"
    "snd (request_internal example_env ?w ?pl Undefined) = 0"
    using request_local_methods[OF m refl, of example_env ?w Undefined]
      local_outcome(1)[of "ethereum ?w" ?pl "Bool True" "Str ''0x1''"] w v o
    by (simp_all add: default_true_def shaped_def reply_def unwrapResult_def)
  show ?thesis
    by (simp add: sendAsync_batch_first sendAsync_single b s)
qed

section \<open>The id round trip\<close>






































section \<open>The two variants\<close>

lemma sendResponse_own_part0_eq:
  assumes "v \<noteq> Null"
  shows "sendResponse_own_part0 p i v
     = (fst (sendResponse_own p i v), Inr (snd (sendResponse_own p i v)))"
proof -
  obtain e q where a: "tryPopId p i = (e, q)" by force
  have t: "typeof_object v \<Longrightarrow> v \<noteq> Undefined" by (cases v) simp_all
  show ?thesis
    unfolding sendResponse_own_part0_def sendResponse_own_def a Let_def prod.case reply_def
      unwrapResult_def
    using assms t by (auto split: option.splits)
qed

lemma sendResponse_frame_part0_eq:
  assumes "v \<noteq> Null"
  shows "sendResponse_frame_part0 i v f = sendResponse_frame i v f"
  by (simp add: sendResponse_frame_part0_def sendResponse_frame_def
      sendResponse_own_part0_eq[OF assms] split: option.splits)

lemma sendResponse_part0_eq:
  assumes "v \<noteq> Null"
  shows "sendResponse_part0 w i v = (sendResponse w i v, None)"
  by (simp add: sendResponse_part0_def sendResponse_def sendResponse_own_part0_eq[OF assms]
      sendResponse_frame_part0_eq[OF assms] split_beta cong: map_cong)

lemma dispatch_part0_local:
  "pmethod pl = ''eth_accounts'' \<Longrightarrow>
     dispatch_part0 ext w pl wr h = sendResponse_part0 w (pid pl) (eth_accounts (ethereum w))"
  "pmethod pl = ''eth_coinbase'' \<Longrightarrow>
     dispatch_part0 ext w pl wr h = sendResponse_part0 w (pid pl) (eth_coinbase (ethereum w))"
  "pmethod pl = ''net_version'' \<Longrightarrow>
     dispatch_part0 ext w pl wr h = sendResponse_part0 w (pid pl) (net_version (ethereum w))"
  "pmethod pl = ''eth_chainId'' \<Longrightarrow>
     dispatch_part0 ext w pl wr h = sendResponse_part0 w (pid pl) (eth_chainId (ethereum w))"
  by (simp_all add: dispatch_part0_def)

lemma dispatch_part0_agrees_local:
  assumes m: "pmethod pl \<in> set local_methods"
    and c: "pmethod pl = ''eth_chainId'' \<longrightarrow> chainId (ethereum w) \<noteq> Null"
  shows "dispatch_part0 ext w pl wr h = dispatch ext w pl wr h"
proof -
  consider "pmethod pl = ''eth_accounts''" | "pmethod pl = ''eth_coinbase''"
    | "pmethod pl = ''net_version''" | "pmethod pl = ''eth_chainId''"
    using m by (auto simp: local_methods_def)
  then show ?thesis
  proof cases
    case 1
    then show ?thesis
      by (simp add: dispatch_local dispatch_part0_local sendResponse_part0_eq eth_accounts_def)
  next
    case 2
    then show ?thesis
      by (simp add: dispatch_local dispatch_part0_local sendResponse_part0_eq eth_coinbase_def)
  next
    case 3
    then show ?thesis
      by (simp add: dispatch_local dispatch_part0_local sendResponse_part0_eq net_version_def)
  next
    case 4
    then show ?thesis
      using c by (simp add: dispatch_local dispatch_part0_local sendResponse_part0_eq
          eth_chainId_def)
  qed
qed

lemma dispatch_part0_agrees_default:
  assumes m: "pmethod pl \<notin> set routed_methods" and x: "\<not> isProxyRPC (ethereum w)"
  shows "dispatch_part0 ext w pl wr h = dispatch ext w pl wr h"
    and "dispatch ext w pl wr h =
      (w\<lparr>ethereum := (ethereum w)\<lparr>callbacks := (callbacks (ethereum w))((pid pl) := None),
            wrapResults := (wrapResults (ethereum w))((pid pl) := None),
            rpcCalls := rpcCalls (ethereum w) @ [(pl, h, wr)]\<rparr>\<rparr>, None)"
  using m x by (simp_all add: routed_methods_def dispatch_def dispatch_part0_def Let_def)

lemma requests_agree:
  assumes "dispatch_part0 ext (w\<lparr>ethereum := fst (registered (ethereum w) pl (default_true arg))\<rparr>)
        (fst (snd (registered (ethereum w) pl (default_true arg)))) (default_true arg)
        (snd (snd (registered (ethereum w) pl (default_true arg))))
      = dispatch ext (w\<lparr>ethereum := fst (registered (ethereum w) pl (default_true arg))\<rparr>)
        (fst (snd (registered (ethereum w) pl (default_true arg)))) (default_true arg)
        (snd (snd (registered (ethereum w) pl (default_true arg))))"
  shows "request_internal_part0 ext w pl arg = request_internal ext w pl arg"
  unfolding request_internal_part0_eq request_internal_eq Let_def assms by (rule refl)

lemma dispatch_part0_unsupported:
  assumes "pmethod pl \<in> set unsupported"
  shows "dispatch_part0 ext w pl wr h =
     (w, Some (ProviderRpcError 4200 (''Trust does not support calling '' @ pmethod pl
                 @ ''. Please use your own solution'')))"
  using assms by (auto simp: dispatch_part0_def unsupported_def)

lemma request_part0_unsupported:
  assumes m: "pmethod pl \<in> set unsupported"
  shows "promises (ethereum (fst (request_internal_part0 ext w pl arg)))
           (snd (request_internal_part0 ext w pl arg))
      = Some (Rejected (ProviderRpcError 4200 (''Trust does not support calling ''
                @ pmethod pl @ ''. Please use your own solution'')))"
    and "posted (ethereum (fst (request_internal_part0 ext w pl arg))) = posted (ethereum w)"
  unfolding request_internal_part0_eq Let_def
  using m registered_fields(7)[of "ethereum w" pl "default_true arg"]
  by (simp_all add: dispatch_part0_unsupported registered_fields settle_eq)

text \<open>
  \<^bold>\<open>C8\<close>, as amended. On the same window the two variants of \<open>_request\<close> do the same
  (they leave the same window and return the same promise, so the same settlement,
  the same messages and the same upstream calls) for the four local methods, as long
  as the chain id is not \<open>null\<close> when \<open>eth_chainId\<close> is asked, and for every method that
  is no \<open>case\<close> label of either \<open>switch\<close> when proxy mode is off: both hand such a call
  to the upstream client. Both reject a filter or subscription method with a
  \<open>ProviderRpcError\<close> of code 4200 and post nothing, with different message texts.
\<close>

theorem variants_agree:
  "(pmethod pl \<in> set local_methods
      \<and> (pmethod pl = ''eth_chainId'' \<longrightarrow> chainId (ethereum w) \<noteq> Null) \<longrightarrow>
      request_internal_part0 ext w pl arg = request_internal ext w pl arg)
   \<and> (pmethod pl \<notin> set routed_methods \<and> \<not> isProxyRPC (ethereum w) \<longrightarrow>
        request_internal_part0 ext w pl arg = request_internal ext w pl arg
        \<and> rpcCalls (ethereum (fst (request_internal ext w pl arg)))
            = rpcCalls (ethereum w) @
                [(fst (snd (registered (ethereum w) pl (default_true arg))),
                  snd (request_internal ext w pl arg), default_true arg)]
        \<and> posted (ethereum (fst (request_internal ext w pl arg))) = posted (ethereum w))
   \<and> (pmethod pl \<in> set unsupported \<longrightarrow>
        (\<exists>text. promises (ethereum (fst (request_internal ext w pl arg)))
                   (snd (request_internal ext w pl arg))
                 = Some (Rejected (ProviderRpcError 4200 text)))
        \<and> (\<exists>text. promises (ethereum (fst (request_internal_part0 ext w pl arg)))
                   (snd (request_internal_part0 ext w pl arg))
                 = Some (Rejected (ProviderRpcError 4200 text)))
        \<and> posted (ethereum (fst (request_internal ext w pl arg))) = posted (ethereum w)
        \<and> posted (ethereum (fst (request_internal_part0 ext w pl arg))) = posted (ethereum w))"
proof (intro conjI impI)
  let ?r = "registered (ethereum w) pl (default_true arg)"
  let ?w = "w\<lparr>ethereum := fst ?r\<rparr>"
  {
    assume a: "pmethod pl \<in> set local_methods
      \<and> (pmethod pl = ''eth_chainId'' \<longrightarrow> chainId (ethereum w) \<noteq> Null)"
    have "chainId (fst ?r) = chainId (ethereum w)" by (simp add: registered_eq)
    then have "dispatch_part0 ext ?w (fst (snd ?r)) (default_true arg) (snd (snd ?r))
        = dispatch ext ?w (fst (snd ?r)) (default_true arg) (snd (snd ?r))"
      using a by (intro dispatch_part0_agrees_local) (simp_all add: registered_fields)
    then show "request_internal_part0 ext w pl arg = request_internal ext w pl arg"
      by (rule requests_agree)
  }
  {
    assume a: "pmethod pl \<notin> set routed_methods \<and> \<not> isProxyRPC (ethereum w)"
    then have b: "pmethod (fst (snd ?r)) \<notin> set routed_methods" "\<not> isProxyRPC (ethereum ?w)"
      by (simp_all add: registered_fields)
    note d = dispatch_part0_agrees_default[OF b, of ext "default_true arg" "snd (snd ?r)"]
    show "request_internal_part0 ext w pl arg = request_internal ext w pl arg"
      using d(1) by (rule requests_agree)
    have e: "request_internal ext w pl arg =
        (?w\<lparr>ethereum := (fst ?r)\<lparr>callbacks := (callbacks (fst ?r))((pid (fst (snd ?r))) := None),
              wrapResults := (wrapResults (fst ?r))((pid (fst (snd ?r))) := None),
              rpcCalls := rpcCalls (fst ?r) @ [(fst (snd ?r), snd (snd ?r), default_true arg)]\<rparr>\<rparr>,
         snd (snd ?r))"
      unfolding request_internal_eq Let_def d(2) by simp
    show "rpcCalls (ethereum (fst (request_internal ext w pl arg)))
        = rpcCalls (ethereum w) @
            [(fst (snd ?r), snd (request_internal ext w pl arg), default_true arg)]"
      by (simp add: e registered_fields)
    show "posted (ethereum (fst (request_internal ext w pl arg))) = posted (ethereum w)"
      by (simp add: e registered_fields)
  }
  {
    assume a: "pmethod pl \<in> set unsupported"
    show "\<exists>text. promises (ethereum (fst (request_internal ext w pl arg)))
                   (snd (request_internal ext w pl arg))
                 = Some (Rejected (ProviderRpcError 4200 text))"
      using unsupported_rejected(1)[OF a, of ext w arg]
      by (simp add: request_unsupported[OF a])
    show "\<exists>text. promises (ethereum (fst (request_internal_part0 ext w pl arg)))
                   (snd (request_internal_part0 ext w pl arg))
                 = Some (Rejected (ProviderRpcError 4200 text))"
      using request_part0_unsupported(1)[OF a, of ext w arg] by simp
    show "posted (ethereum (fst (request_internal ext w pl arg))) = posted (ethereum w)"
      by (rule unsupported_rejected(2)[OF a])
    show "posted (ethereum (fst (request_internal_part0 ext w pl arg))) = posted (ethereum w)"
      by (rule request_part0_unsupported(2)[OF a])
  }
qed

lemma example_ready_registry:
  "posted (ethereum (example_page (Str ''0xAbC'') (Num 1))) = []"
  "rpcCalls (ethereum (example_page (Str ''0xAbC'') (Num 1))) = []"
  "isProxyRPC (ethereum (example_page (Str ''0xAbC'') (Num 1))) = False"
  "ready (ethereum (example_page (Str ''0xAbC'') (Num 1))) = True"
  "nextPromise (ethereum (example_page (Str ''0xAbC'') (Num 1))) = 0"
  "internal_id (ethereum (example_page (Str ''0xAbC'') (Num 1))) = Num 1000"
  "chainId (ethereum (example_page (Str ''0xAbC'') (Num 1))) = Str ''0x1''"
  by (simp_all add: example_page_ready example_internal_id) (simp_all add: blank_def)

theorem variants_agree_witness:
  "request_internal_part0 example_env (example_page (Str ''0xAbC'') (Num 1))
       (call (Num 1) ''eth_chainId'' None) Undefined
     = request_internal example_env (example_page (Str ''0xAbC'') (Num 1))
         (call (Num 1) ''eth_chainId'' None) Undefined
   \<and> request_internal_part0 example_env (example_page (Str ''0xAbC'') (Num 1))
       (call (Num 1) ''foo_bar'' None) Undefined
     = request_internal example_env (example_page (Str ''0xAbC'') (Num 1))
         (call (Num 1) ''foo_bar'' None) Undefined
   \<and> rpcCalls (ethereum (fst (request_internal example_env
         (example_page (Str ''0xAbC'') (Num 1)) (call (Num 1) ''foo_bar'' None) Undefined)))
     = [(\<lparr>pid = Num 1000, pjsonrpc = Str ''2.0'', pmethod = ''foo_bar'', pparams = None\<rparr>,
         0, Bool True)]
   \<and> (\<exists>text. promises (ethereum (fst (request_internal_part0 example_env
         (example_page (Str ''0xAbC'') (Num 1)) (call (Num 1) ''eth_subscribe'' None) Undefined)))
         (snd (request_internal_part0 example_env
         (example_page (Str ''0xAbC'') (Num 1)) (call (Num 1) ''eth_subscribe'' None) Undefined))
       = Some (Rejected (ProviderRpcError 4200 text)))"
proof -
  let ?w = "example_page (Str ''0xAbC'') (Num 1)"
  have a: "pmethod (call (Num 1) ''eth_chainId'' None) \<in> set local_methods"
    "pmethod (call (Num 1) ''foo_bar'' None) \<notin> set routed_methods"
    "pmethod (call (Num 1) ''eth_subscribe'' None) \<in> set unsupported"
    by (simp_all add: call_def local_methods_def routed_methods_def unsupported_def)
  have h: "snd (request_internal example_env ?w (call (Num 1) ''foo_bar'' None) Undefined) = 0"
    by (simp add: request_internal_eq Let_def registered_fields example_ready_registry)
  have r: "fst (snd (registered (ethereum ?w) (call (Num 1) ''foo_bar'' None) (Bool True)))
      = \<lparr>pid = Num 1000, pjsonrpc = Str ''2.0'', pmethod = ''foo_bar'', pparams = None\<rparr>"
    by (simp add: registered_eq example_ready_registry call_def)
  show ?thesis
    using variants_agree[where pl = "call (Num 1) ''eth_chainId'' None" and w = ?w
        and ext = example_env and arg = Undefined]
      variants_agree[where pl = "call (Num 1) ''foo_bar'' None" and w = ?w
        and ext = example_env and arg = Undefined]
      variants_agree[where pl = "call (Num 1) ''eth_subscribe'' None" and w = ?w
        and ext = example_env and arg = Undefined]
      a
    by (simp add: example_ready_registry h r default_true_def)
qed

lemma dispatch_switchEthereumChain:
  "pmethod pl = ''wallet_switchEthereumChain'' \<Longrightarrow>
     dispatch ext w pl wr h = handled w (wallet_switchEthereumChain ext (ethereum w) pl)"
  "pmethod pl = ''wallet_switchEthereumChain'' \<Longrightarrow>
     dispatch_part0 ext w pl wr h =
       (w\<lparr>ethereum := (ethereum w)\<lparr>callbacks := (callbacks (ethereum w))((pid pl) := None),
             wrapResults := (wrapResults (ethereum w))((pid pl) := None),
             rpcCalls := rpcCalls (ethereum w) @ [(pl, h, wr)]\<rparr>\<rparr>, None)"
  by (simp_all add: dispatch_def dispatch_part0_def Let_def)

theorem variants_agree_counterexample:
  "posted (ethereum (fst (request_internal example_env (example_page (Str ''0xAbC'') (Num 1))
       (call (Num 1) ''wallet_switchEthereumChain'' (Some [Obj [(''chainId'', Str ''0x38'')]]))
       Undefined)))
     = [\<lparr>msg_dapp = Some (''https://dapp.example'', ''https://dapp.example/favicon.ico''),
         msg_name = ''switchEthereumChain'',
         msg_payload = Obj [(''chainId'', Str ''0x38'')], msg_id = Str ''1000''\<rparr>]
   \<and> rpcCalls (ethereum (fst (request_internal example_env
       (example_page (Str ''0xAbC'') (Num 1))
       (call (Num 1) ''wallet_switchEthereumChain'' (Some [Obj [(''chainId'', Str ''0x38'')]]))
       Undefined))) = []
   \<and> posted (ethereum (fst (request_internal_part0 example_env
       (example_page (Str ''0xAbC'') (Num 1))
       (call (Num 1) ''wallet_switchEthereumChain'' (Some [Obj [(''chainId'', Str ''0x38'')]]))
       Undefined))) = []
   \<and> rpcCalls (ethereum (fst (request_internal_part0 example_env
       (example_page (Str ''0xAbC'') (Num 1))
       (call (Num 1) ''wallet_switchEthereumChain'' (Some [Obj [(''chainId'', Str ''0x38'')]]))
       Undefined)))
     = [(\<lparr>pid = Num 1000, pjsonrpc = Str ''2.0'', pmethod = ''wallet_switchEthereumChain'',
          pparams = Some [Obj [(''chainId'', Str ''0x38'')]]\<rparr>, 0, Bool True)]"
proof -
  let ?w = "example_page (Str ''0xAbC'') (Num 1)"
  let ?pl = "call (Num 1) ''wallet_switchEthereumChain'' (Some [Obj [(''chainId'', Str ''0x38'')]])"
  let ?r = "registered (ethereum ?w) ?pl (default_true Undefined)"
  have m: "pmethod ?pl = ''wallet_switchEthereumChain''"
    "pparams ?pl = Some [Obj [(''chainId'', Str ''0x38'')]]"
    by (simp_all add: call_def)
  have r: "fst (snd ?r)
      = \<lparr>pid = Num 1000, pjsonrpc = Str ''2.0'', pmethod = ''wallet_switchEthereumChain'',
          pparams = Some [Obj [(''chainId'', Str ''0x38'')]]\<rparr>"
    by (simp add: registered_eq example_ready_registry call_def)
  have "wallet_switchEthereumChain example_env (fst ?r) (fst (snd ?r))
      = Inr ((fst ?r)\<lparr>posted :=
          [\<lparr>msg_dapp = Some (''https://dapp.example'', ''https://dapp.example/favicon.ico''),
            msg_name = ''switchEthereumChain'',
            msg_payload = Obj [(''chainId'', Str ''0x38'')], msg_id = Str ''1000''\<rparr>]\<rparr>)"
    by (simp add: wallet_switchEthereumChain_def param_at_def registered_fields m
        postMessage_open example_ready_registry example_env_page toString_1000)
  then have a: "request_internal example_env ?w ?pl Undefined
      = (?w\<lparr>ethereum := (fst ?r)\<lparr>posted :=
          [\<lparr>msg_dapp = Some (''https://dapp.example'', ''https://dapp.example/favicon.ico''),
            msg_name = ''switchEthereumChain'',
            msg_payload = Obj [(''chainId'', Str ''0x38'')], msg_id = Str ''1000''\<rparr>]\<rparr>\<rparr>,
         nextPromise (ethereum ?w))"
    by (intro request_handled) (simp add: dispatch_switchEthereumChain registered_fields m)
  have b: "request_internal_part0 example_env ?w ?pl Undefined
      = (?w\<lparr>ethereum := (fst ?r)\<lparr>callbacks := (callbacks (fst ?r))(Num 1000 := None),
            wrapResults := (wrapResults (fst ?r))(Num 1000 := None),
            rpcCalls := [(fst (snd ?r), 0, Bool True)]\<rparr>\<rparr>, 0)"
    unfolding request_internal_part0_eq Let_def
    by (simp add: dispatch_switchEthereumChain registered_fields m example_ready_registry
        default_true_def)
  show ?thesis
    unfolding a b by (simp add: registered_fields example_ready_registry r)
qed

end
